theory Spec2Isabelle
  imports Main "HOL-Library.Multiset"
begin

section \<open>The SEO analyzer of script.js\<close>

text \<open>
  A shallow embedding of the scoring logic of the class \<open>SEOAnalyzer\<close> in
  \<^verbatim>\<open>script.js\<close>: the metric table of \<open>setupMetrics\<close>, the twelve metric
  evaluators reached through \<open>generateDetailedAnalysis\<close>, the status and severity
  thresholds, the canned recommendations, the issue collector, the total score of
  \<open>calculateTotalScore\<close> and the consumer of the event stream in
  \<open>performAnalysis\<close>.

  Scores are JavaScript numbers holding integers; they are modelled by \<open>int\<close>. Where
  the source can produce a number that is not an integer (\<open>NaN\<close> from arithmetic on
  \<open>undefined\<close>, a division by zero) the model uses \<open>jsnum\<close>. Signed zeros are not
  distinguished: no comparison of the source tells them apart.
\<close>

subsection \<open>Numbers\<close>

datatype jsnum = Num int | NaN | PosInfinity | NegInfinity

fun js_add :: "jsnum \<Rightarrow> jsnum \<Rightarrow> jsnum" where
  "js_add (Num a) (Num b) = Num (a + b)"
| "js_add NaN _ = NaN"
| "js_add _ NaN = NaN"
| "js_add PosInfinity NegInfinity = NaN"
| "js_add NegInfinity PosInfinity = NaN"
| "js_add PosInfinity _ = PosInfinity"
| "js_add _ PosInfinity = PosInfinity"
| "js_add NegInfinity _ = NegInfinity"
| "js_add _ NegInfinity = NegInfinity"

definition signed_infinity :: "bool \<Rightarrow> jsnum" where
  "signed_infinity positive = (if positive then PosInfinity else NegInfinity)"

fun js_mul :: "jsnum \<Rightarrow> jsnum \<Rightarrow> jsnum" where
  "js_mul (Num a) (Num b) = Num (a * b)"
| "js_mul NaN _ = NaN"
| "js_mul _ NaN = NaN"
| "js_mul (Num a) PosInfinity = (if a = 0 then NaN else signed_infinity (0 < a))"
| "js_mul (Num a) NegInfinity = (if a = 0 then NaN else signed_infinity (a < 0))"
| "js_mul PosInfinity (Num b) = (if b = 0 then NaN else signed_infinity (0 < b))"
| "js_mul NegInfinity (Num b) = (if b = 0 then NaN else signed_infinity (b < 0))"
| "js_mul PosInfinity PosInfinity = PosInfinity"
| "js_mul NegInfinity NegInfinity = PosInfinity"
| "js_mul PosInfinity NegInfinity = NegInfinity"
| "js_mul NegInfinity PosInfinity = NegInfinity"

text \<open>
  \<open>Math.round(a / b)\<close>. For integers \<open>a\<close> and \<open>b \<noteq> 0\<close> the quotient is rounded to the
  nearest integer, a tie going towards \<open>+\<infinity>\<close>: that is \<open>\<lfloor>a / b + 1/2\<rfloor>\<close>, computed here
  on integers. The division is the exact one; the rounding error of the double
  division cannot move a quotient across a half-integer as long as \<open>\<bar>a\<bar> < 2^52\<close>.
\<close>

definition round_half_up :: "int \<Rightarrow> int \<Rightarrow> int" where
  "round_half_up a b =
     (if 0 < b then (2 * a + b) div (2 * b) else (2 * (- a) + (- b)) div (2 * (- b)))"

fun js_round_div :: "jsnum \<Rightarrow> jsnum \<Rightarrow> jsnum" where
  "js_round_div (Num a) (Num b) =
     (if b = 0 then (if a = 0 then NaN else signed_infinity (0 < a))
      else Num (round_half_up a b))"
| "js_round_div NaN _ = NaN"
| "js_round_div _ NaN = NaN"
| "js_round_div (Num a) _ = Num 0"
| "js_round_div PosInfinity (Num b) = signed_infinity (0 \<le> b)"
| "js_round_div NegInfinity (Num b) = signed_infinity (b < 0)"
| "js_round_div _ _ = NaN"

text \<open>\<open>x >= n\<close> for a number \<open>x\<close> and an integer literal \<open>n\<close>: false on \<open>NaN\<close>.\<close>

fun js_ge :: "jsnum \<Rightarrow> int \<Rightarrow> bool" where
  "js_ge (Num a) n = (n \<le> a)"
| "js_ge NaN n = False"
| "js_ge PosInfinity n = True"
| "js_ge NegInfinity n = False"

subsection \<open>Status and severity thresholds\<close>

datatype status = Excellent | Good | Warning | Poor

definition getScoreStatus :: "jsnum \<Rightarrow> status" where
  "getScoreStatus score =
     (if js_ge score 90 then Excellent
      else if js_ge score 75 then Good
      else if js_ge score 60 then Warning
      else Poor)"

datatype severity = Critical | High | Medium | Low

definition getIssueSeverity :: "int \<Rightarrow> severity" where
  "getIssueSeverity score =
     (if score < 30 then Critical
      else if score < 50 then High
      else if score < 65 then Medium
      else Low)"

subsection \<open>The metric table\<close>

text \<open>
  \<open>setupMetrics\<close> stores one object per metric under its key. The model keeps the
  display name and the weight; icon, colour and the two description texts are display
  data that no computation reads.
\<close>

record metric_info =
  name :: string
  weight :: int

definition setupMetrics :: "(string \<times> metric_info) list" where
  "setupMetrics =
     [(''pageSpeed'', \<lparr>name = ''Page Speed'', weight = 15\<rparr>),
      (''mobileOptimization'', \<lparr>name = ''Mobile Optimization'', weight = 12\<rparr>),
      (''metaTags'', \<lparr>name = ''Meta Tags'', weight = 10\<rparr>),
      (''headingStructure'', \<lparr>name = ''Heading Structure'', weight = 8\<rparr>),
      (''imageOptimization'', \<lparr>name = ''Image Optimization'', weight = 7\<rparr>),
      (''internalLinking'', \<lparr>name = ''Internal Linking'', weight = 8\<rparr>),
      (''sslCertificate'', \<lparr>name = ''SSL Certificate'', weight = 10\<rparr>),
      (''socialMediaTags'', \<lparr>name = ''Social Media Tags'', weight = 5\<rparr>),
      (''contentQuality'', \<lparr>name = ''Content Quality'', weight = 12\<rparr>),
      (''urlStructure'', \<lparr>name = ''URL Structure'', weight = 6\<rparr>),
      (''robotsTxt'', \<lparr>name = ''Robots.txt'', weight = 4\<rparr>),
      (''sitemap'', \<lparr>name = ''XML Sitemap'', weight = 3\<rparr>)]"

text \<open>\<open>Object.keys(this.metrics)\<close>, in insertion order.\<close>

definition metric_keys :: "string list" where
  "metric_keys = map fst setupMetrics"

text \<open>
  \<open>this.metrics[key]\<close> is a property read on an ordinary object: a key that is not
  one of its own is looked up on \<open>Object.prototype\<close>, so the read yields an inherited
  member for the names below and \<open>undefined\<close> for every other string.
\<close>

definition object_prototype_members :: "string list" where
  "object_prototype_members =
     [''constructor'', ''hasOwnProperty'', ''isPrototypeOf'', ''propertyIsEnumerable'',
      ''toLocaleString'', ''toString'', ''valueOf'', ''__proto__'',
      ''__defineGetter__'', ''__defineSetter__'', ''__lookupGetter__'', ''__lookupSetter__'']"

datatype 'a property = Own 'a | Inherited string | Undefined

definition get_property :: "(string \<times> 'a) list \<Rightarrow> string \<Rightarrow> 'a property" where
  "get_property obj key =
     (case map_of obj key of
        Some v \<Rightarrow> Own v
      | None \<Rightarrow> if key \<in> set object_prototype_members then Inherited key else Undefined)"

text \<open>
  The \<open>name\<close> of an inherited member: a built-in function carries its own name,
  \<open>constructor\<close> is the function \<open>Object\<close>, and \<open>__proto__\<close> is the prototype object,
  which has no \<open>name\<close>.
\<close>

definition member_name :: "string \<Rightarrow> string option" where
  "member_name key =
     (if key = ''constructor'' then Some ''Object''
      else if key = ''__proto__'' then None
      else Some key)"

datatype exn =
    TypeError
  | SyntaxError
  | RequestFailed
  | NoResult
  | StreamError "string option"
  | FetchRejected

subsection \<open>Metric results\<close>

text \<open>
  One record serves the three shapes a metric result takes in the source; they differ
  in the types of \<open>status\<close>, \<open>details\<close> and \<open>recommendations\<close>, which are parameters.
\<close>

record ('s, 't, 'r, 'd) metric_result =
  score :: int
  status :: 's
  details :: 't
  recommendations :: 'r
  specificData :: 'd

subsection \<open>Total score\<close>

record total =
  total_score :: jsnum
  total_status :: status
  weightedSum :: jsnum
  totalWeight :: jsnum

text \<open>
  The loop of \<open>calculateTotalScore\<close> over \<open>Object.entries(results)\<close>. Reading
  \<open>weight\<close> of \<open>undefined\<close> throws; an inherited member has no \<open>weight\<close>, and
  arithmetic on \<open>undefined\<close> gives \<open>NaN\<close>.
\<close>

fun weight_of :: "metric_info property \<Rightarrow> exn + jsnum" where
  "weight_of (Own m) = Inr (Num (weight m))"
| "weight_of (Inherited k) = Inr NaN"
| "weight_of Undefined = Inl TypeError"

fun sum_weights ::
  "(string \<times> ('s, 't, 'r, 'd) metric_result) list \<Rightarrow> jsnum \<Rightarrow> jsnum \<Rightarrow> exn + jsnum \<times> jsnum" where
  "sum_weights [] ws tw = Inr (ws, tw)"
| "sum_weights ((key, result) # rest) ws tw =
     (case weight_of (get_property setupMetrics key) of
        Inl e \<Rightarrow> Inl e
      | Inr w \<Rightarrow> sum_weights rest (js_add ws (js_mul (Num (score result)) w)) (js_add tw w))"

definition calculateTotalScore ::
  "(string \<times> ('s, 't, 'r, 'd) metric_result) list \<Rightarrow> exn + total" where
  "calculateTotalScore results =
     (case sum_weights results (Num 0) (Num 0) of
        Inl e \<Rightarrow> Inl e
      | Inr (ws, tw) \<Rightarrow>
          (let totalScore = js_round_div ws tw
           in Inr \<lparr>total_score = totalScore, total_status = getScoreStatus totalScore,
                   weightedSum = ws, totalWeight = tw\<rparr>))"

subsection \<open>Issues\<close>

record ('t, 'd) issueData =
  metric :: "string option"
  issue_score :: int
  severity :: severity
  issue_details :: 't
  issue_specificData :: 'd
  issue_recommendations :: "string list"

definition extractIssueData ::
  "string option \<Rightarrow> ('s, 't, string list, 'd) metric_result \<Rightarrow> severity \<Rightarrow> ('t, 'd) issueData" where
  "extractIssueData metricName result sev =
     \<lparr>metric = metricName, issue_score = score result, severity = sev,
      issue_details = details result, issue_specificData = specificData result,
      issue_recommendations = take 3 (recommendations result)\<rparr>"

fun metric_name_of :: "metric_info property \<Rightarrow> exn + string option" where
  "metric_name_of (Own m) = Inr (Some (name m))"
| "metric_name_of (Inherited k) = Inr (member_name k)"
| "metric_name_of Undefined = Inl TypeError"

fun collect_loop ::
  "(string \<times> ('s, 't, string list, 'd) metric_result) list \<Rightarrow> ('t, 'd) issueData list
     \<Rightarrow> exn + ('t, 'd) issueData list" where
  "collect_loop [] issues = Inr issues"
| "collect_loop ((key, result) # rest) issues =
     (if score result < 75 then
        (case metric_name_of (get_property setupMetrics key) of
           Inl e \<Rightarrow> Inl e
         | Inr metricName \<Rightarrow>
             collect_loop rest
               (issues @ [extractIssueData metricName result (getIssueSeverity (score result))]))
      else collect_loop rest issues)"

definition severityOrder :: "severity \<Rightarrow> int" where
  "severityOrder s = (case s of Critical \<Rightarrow> 0 | High \<Rightarrow> 1 | Medium \<Rightarrow> 2 | Low \<Rightarrow> 3)"

text \<open>
  \<open>Array.prototype.sort\<close> with the comparator
  \<open>severityOrder[a.severity] - severityOrder[b.severity]\<close> is a stable sort by that
  rank; \<open>sort_key\<close> is the stable insertion sort.
\<close>

definition collectAllIssues ::
  "(string \<times> ('s, 't, string list, 'd) metric_result) list \<Rightarrow> exn + ('t, 'd) issueData list" where
  "collectAllIssues results =
     (case collect_loop results [] of
        Inl e \<Rightarrow> Inl e
      | Inr issues \<Rightarrow> Inr (sort_key (\<lambda>i. severityOrder (severity i)) issues))"

subsection \<open>Canned recommendations\<close>

definition recommendations_table :: "(string \<times> string list) list" where
  "recommendations_table =
     [(''Page Speed'',
        [''Optimize images by compressing them'',
         ''Enable browser caching'',
         ''Minify CSS and JavaScript files'',
         ''Use a Content Delivery Network (CDN)'',
         ''Remove unused plugins and scripts'']),
      (''Mobile Optimization'',
        [''Ensure responsive design works on all devices'',
         ''Test touch targets are large enough'',
         ''Optimize font sizes for mobile'',
         ''Check viewport meta tag'',
         ''Test mobile usability'']),
      (''Meta Tags'',
        [''Add unique title tags to all pages'',
         ''Write compelling meta descriptions'',
         ''Include relevant keywords naturally'',
         ''Keep titles under 60 characters'',
         ''Keep descriptions under 160 characters'']),
      (''Heading Structure'',
        [''Use only one H1 tag per page'',
         ''Maintain logical heading hierarchy'',
         ''Include keywords in headings'',
         ''Make headings descriptive and clear'',
         ''Use proper heading tags, not just styling'']),
      (''Image Optimization'',
        [''Compress images without losing quality'',
         ''Use appropriate image formats (WebP, JPEG, PNG)'',
         ''Add alt text to all images'',
         ''Implement lazy loading'',
         ''Use descriptive filenames'']),
      (''Internal Linking'',
        [''Create logical navigation structure'',
         ''Link related content together'',
         ''Use descriptive anchor text'',
         ''Include breadcrumb navigation'',
         ''Add contextual internal links'']),
      (''SSL Certificate'',
        [''Install SSL certificate'',
         ''Redirect HTTP to HTTPS'',
         ''Update internal links to HTTPS'',
         ''Fix mixed content issues'',
         ''Renew certificate before expiration'']),
      (''Social Media Tags'',
        [''Add Open Graph meta tags'',
         ''Include Twitter Card tags'',
         ''Set proper image dimensions'',
         ''Write compelling social descriptions'',
         ''Test social media previews'']),
      (''Content Quality'',
        [''Write original, valuable content'',
         ''Use proper keyword density'',
         ''Improve content readability'',
         ''Add relevant internal links'',
         ''Update content regularly'']),
      (''URL Structure'',
        [''Use descriptive, keyword-rich URLs'',
         ''Keep URLs short and clean'',
         ''Use hyphens to separate words'',
         ''Avoid special characters'',
         ''Include relevant keywords'']),
      (''Robots.txt'',
        [''Create robots.txt file'',
         ''Allow important pages to be crawled'',
         ''Block duplicate or low-quality pages'',
         ''Reference your sitemap location'',
         ''Test robots.txt with Google Search Console'']),
      (''XML Sitemap'',
        [''Create XML sitemap'',
         ''Submit sitemap to Google Search Console'',
         ''Keep sitemap updated'',
         ''Include all important pages'',
         ''Use proper sitemap format''])]"

text \<open>
  The value of \<open>recommendations[metricName] || [...]\<close>: the list stored under the name,
  the inherited member when the name is one of \<open>Object.prototype\<close> (any object is
  truthy, so the default is not taken), the one-element default otherwise. The table is
  an object literal built afresh by every call.
\<close>

datatype recs = Recs "string list" | ProtoMember string

definition generateRecommendations :: "string \<Rightarrow> jsnum \<Rightarrow> recs" where
  "generateRecommendations metricName sc =
     (case get_property recommendations_table metricName of
        Own l \<Rightarrow> Recs l
      | Inherited k \<Rightarrow> ProtoMember k
      | Undefined \<Rightarrow> Recs [''Improve this metric for better SEO performance''])"

subsection \<open>Measured quantities\<close>

text \<open>
  Every evaluator draws its measured quantities from \<open>Math.random\<close>. The model takes
  the drawn values as an argument, one record per evaluator, with unbounded integers:
  the ranges of the draws are not assumed.
\<close>

record page_speed =
  loadTime :: int
  totalSize :: int
  imageSize :: int
  cssSize :: int
  jsSize :: int

record mobile =
  hasViewport :: bool
  touchTargets :: int
  smallTouchTargets :: int
  fontSize :: int
  hasMobileMenu :: bool

text \<open>The local \<open>hasKeywords\<close> of \<open>analyzeMetaTags\<close> bears the name of its key in \<open>specificData\<close>.\<close>

record meta_tags =
  titleLength :: int
  descriptionLength :: int
  hasKeywordMeta :: bool
  hasCanonical :: bool
  duplicateTitles :: int

record headings =
  h1Count :: int
  h2Count :: int
  h3Count :: int
  missingHeadings :: int
  skippedLevels :: int

record images =
  totalImages :: int
  largeImages :: int
  missingAlt :: int
  webpImages :: int
  lazyLoaded :: int

record links =
  totalLinks :: int
  brokenLinks :: int
  externalLinks :: int
  orphanPages :: int
  deepLinks :: int

record ssl =
  hasSSL :: bool
  daysToExpire :: int
  hasHSTS :: bool
  mixedContent :: int

record social =
  hasOpenGraph :: bool
  hasTwitterCards :: bool
  hasImage :: bool
  hasDescription :: bool

record content =
  wordCount :: int
  keywordDensity :: int
  readabilityScore :: int
  duplicateContent :: int
  internalLinks :: int

record url_structure =
  urlLength :: int
  hasKeywords :: bool
  hasSpecialChars :: bool
  hasNumbers :: bool
  depth :: int

record robots =
  hasRobotsTxt :: bool
  blocksImportantPages :: bool
  hasSitemapReference :: bool
  blocksCSS :: bool

record sitemap =
  hasSitemap :: bool
  totalPages :: int
  lastModified :: int
  hasImages :: bool
  submittedToGoogle :: bool

record draws =
  pageSpeedDraw :: page_speed
  mobileDraw :: mobile
  metaTagsDraw :: meta_tags
  headingsDraw :: headings
  imagesDraw :: images
  linksDraw :: links
  sslDraw :: ssl
  socialDraw :: social
  contentDraw :: content
  urlDraw :: url_structure
  robotsDraw :: robots
  sitemapDraw :: sitemap

text \<open>
  \<open>specificData\<close> echoes the measured quantities. The display texts some evaluators
  add to it (a sample title, sample heading texts, a sample list of external links) are
  left out.
\<close>

datatype specific =
    PageSpeedData page_speed
  | MobileData mobile
  | MetaTagsData meta_tags
  | HeadingsData headings
  | ImagesData images
  | LinksData links
  | SslData ssl
  | SocialData social
  | ContentData content
  | UrlData url_structure
  | RobotsData robots
  | SitemapData sitemap
  | NoData

subsection \<open>Issues\<close>

text \<open>
  The issue strings are Chinese sentences, most with a measured value spliced in. The
  model keeps which sentence it is and the spliced value.
\<close>

datatype page_speed_issue =
    LoadTimeTooLong int | LoadTimeSlow int | TotalSizeTooLarge int
  | ImageSizeTooLarge int | CssTooLarge int | JsTooLarge int

datatype mobile_issue =
  MissingViewport | SmallTouchTargets int | FontTooSmall int | MissingMobileMenu

datatype meta_tags_issue =
    TitleTooShort int | TitleTooLong int | DescriptionTooShort int
  | DescriptionTooLong int | MissingKeywordMeta | MissingCanonical | DuplicateTitles int

datatype headings_issue =
  MultipleH1 int | MissingH1 | MissingHeadings int | SkippedLevels int

datatype images_issue =
  LargeImages int | MissingAlt int | FewWebp int | FewLazyLoaded int

datatype links_issue =
  BrokenLinks int | OrphanPages int | FewInternalLinks int | DeepLinks int

datatype ssl_issue =
  NoHttps | CertificateExpiring int | MissingHsts | MixedContent int

datatype social_issue =
  MissingOpenGraph | MissingTwitterCard | MissingSocialImage | MissingSocialDescription

datatype content_issue =
    ContentTooShort int | BadKeywordDensity int | PoorReadability int
  | DuplicateContent int | FewContentLinks int

datatype url_issue =
  UrlTooLong int | UrlWithoutKeywords | UrlSpecialChars | UrlTooDeep int

datatype robots_issue =
  MissingRobotsTxt | BlocksImportantPages | MissingSitemapReference | BlocksCss

datatype sitemap_issue =
  MissingSitemap | SitemapStale int | SitemapWithoutImages | SitemapNotSubmitted

datatype issue =
    PageSpeedIssue page_speed_issue
  | MobileIssue mobile_issue
  | MetaTagsIssue meta_tags_issue
  | HeadingsIssue headings_issue
  | ImagesIssue images_issue
  | LinksIssue links_issue
  | SslIssue ssl_issue
  | SocialIssue social_issue
  | ContentIssue content_issue
  | UrlIssue url_issue
  | RobotsIssue robots_issue
  | SitemapIssue sitemap_issue

text \<open>
  \<open>details\<close> of an evaluator is \<open>issues.join('; ')\<close> when an issue was recorded and a
  fixed sentence of the evaluator otherwise (tagged here by the metric's name); the
  default case of the dispatch returns the empty string.
\<close>

datatype details = IssueText "issue list" | AllGood string | EmptyText

type_synonym analysis = "(status option, details, recs, specific) metric_result"

subsection \<open>The metric evaluators\<close>

text \<open>\<open>score -= d; issues.push(i)\<close> on the pair of the two locals.\<close>

definition deduct :: "int \<Rightarrow> 'i \<Rightarrow> int \<times> 'i list \<Rightarrow> int \<times> 'i list" where
  "deduct d i st = (fst st - d, snd st @ [i])"

text \<open>
  The object every evaluator returns, after \<open>score = Math.max(score, 0)\<close>. An evaluator
  sets no \<open>status\<close>.
\<close>

definition evaluation :: "string \<Rightarrow> int \<times> issue list \<Rightarrow> specific \<Rightarrow> analysis" where
  "evaluation metricName st dat =
     (let sc = max (fst st) 0
      in \<lparr>score = sc, status = None,
          details = (if 0 < length (snd st) then IssueText (snd st) else AllGood metricName),
          recommendations = generateRecommendations metricName (Num sc),
          specificData = dat\<rparr>)"

definition page_speed_rules :: "page_speed \<Rightarrow> int \<times> page_speed_issue list" where
  "page_speed_rules m =
     (let st = (100, []);
          st = (if loadTime m > 2000 then deduct 30 (LoadTimeTooLong (loadTime m)) st
                else if loadTime m > 1500 then deduct 15 (LoadTimeSlow (loadTime m)) st
                else st);
          st = (if totalSize m > 1500 then deduct 25 (TotalSizeTooLarge (totalSize m)) st else st);
          st = (if imageSize m > 500 then deduct 20 (ImageSizeTooLarge (imageSize m)) st else st);
          st = (if cssSize m > 150 then deduct 10 (CssTooLarge (cssSize m)) st else st);
          st = (if jsSize m > 200 then deduct 15 (JsTooLarge (jsSize m)) st else st)
      in st)"

definition analyzePageSpeed :: "page_speed \<Rightarrow> analysis" where
  "analyzePageSpeed m =
     evaluation ''Page Speed''
       (fst (page_speed_rules m), map PageSpeedIssue (snd (page_speed_rules m)))
       (PageSpeedData m)"

definition mobile_rules :: "mobile \<Rightarrow> int \<times> mobile_issue list" where
  "mobile_rules m =
     (let st = (100, []);
          st = (if \<not> hasViewport m then deduct 40 MissingViewport st else st);
          st = (if smallTouchTargets m > 3
                then deduct 25 (SmallTouchTargets (smallTouchTargets m)) st else st);
          st = (if fontSize m < 14 then deduct 20 (FontTooSmall (fontSize m)) st else st);
          st = (if \<not> hasMobileMenu m then deduct 15 MissingMobileMenu st else st)
      in st)"

definition analyzeMobileOptimization :: "mobile \<Rightarrow> analysis" where
  "analyzeMobileOptimization m =
     evaluation ''Mobile Optimization''
       (fst (mobile_rules m), map MobileIssue (snd (mobile_rules m)))
       (MobileData m)"

definition meta_tags_rules :: "meta_tags \<Rightarrow> int \<times> meta_tags_issue list" where
  "meta_tags_rules m =
     (let st = (100, []);
          st = (if titleLength m < 30 then deduct 20 (TitleTooShort (titleLength m)) st
                else if titleLength m > 60 then deduct 15 (TitleTooLong (titleLength m)) st
                else st);
          st = (if descriptionLength m < 120
                then deduct 15 (DescriptionTooShort (descriptionLength m)) st
                else if descriptionLength m > 160
                then deduct 10 (DescriptionTooLong (descriptionLength m)) st
                else st);
          st = (if \<not> hasKeywordMeta m then deduct 5 MissingKeywordMeta st else st);
          st = (if \<not> hasCanonical m then deduct 10 MissingCanonical st else st);
          st = (if duplicateTitles m > 0
                then deduct 20 (DuplicateTitles (duplicateTitles m)) st else st)
      in st)"

definition analyzeMetaTags :: "meta_tags \<Rightarrow> analysis" where
  "analyzeMetaTags m =
     evaluation ''Meta Tags''
       (fst (meta_tags_rules m), map MetaTagsIssue (snd (meta_tags_rules m)))
       (MetaTagsData m)"

definition headings_rules :: "headings \<Rightarrow> int \<times> headings_issue list" where
  "headings_rules m =
     (let st = (100, []);
          st = (if h1Count m > 1 then deduct 30 (MultipleH1 (h1Count m)) st else st);
          st = (if h1Count m = 0 then deduct 40 MissingH1 st else st);
          st = (if missingHeadings m > 2
                then deduct 20 (MissingHeadings (missingHeadings m)) st else st);
          st = (if skippedLevels m > 1
                then deduct 15 (SkippedLevels (skippedLevels m)) st else st)
      in st)"

definition analyzeHeadingStructure :: "headings \<Rightarrow> analysis" where
  "analyzeHeadingStructure m =
     evaluation ''Heading Structure''
       (fst (headings_rules m), map HeadingsIssue (snd (headings_rules m)))
       (HeadingsData m)"

text \<open>
  \<open>webpImages < totalImages * 0.2\<close> and \<open>lazyLoaded < totalImages * 0.3\<close> are
  compared as exact fractions, on integers: \<open>5 * webpImages < totalImages\<close> and
  \<open>10 * lazyLoaded < 3 * totalImages\<close>.
\<close>

definition images_rules :: "images \<Rightarrow> int \<times> images_issue list" where
  "images_rules m =
     (let st = (100, []);
          st = (if largeImages m > 3 then deduct 25 (LargeImages (largeImages m)) st else st);
          st = (if missingAlt m > 2 then deduct 20 (MissingAlt (missingAlt m)) st else st);
          st = (if 5 * webpImages m < totalImages m
                then deduct 15 (FewWebp (webpImages m)) st else st);
          st = (if 10 * lazyLoaded m < 3 * totalImages m
                then deduct 10 (FewLazyLoaded (lazyLoaded m)) st else st)
      in st)"

definition analyzeImageOptimization :: "images \<Rightarrow> analysis" where
  "analyzeImageOptimization m =
     evaluation ''Image Optimization''
       (fst (images_rules m), map ImagesIssue (snd (images_rules m)))
       (ImagesData m)"

definition links_rules :: "links \<Rightarrow> int \<times> links_issue list" where
  "links_rules m =
     (let st = (100, []);
          st = (if brokenLinks m > 1 then deduct 30 (BrokenLinks (brokenLinks m)) st else st);
          st = (if orphanPages m > 3 then deduct 25 (OrphanPages (orphanPages m)) st else st);
          st = (if totalLinks m < 20
                then deduct 20 (FewInternalLinks (totalLinks m)) st else st);
          st = (if deepLinks m > 5 then deduct 15 (DeepLinks (deepLinks m)) st else st)
      in st)"

definition analyzeInternalLinking :: "links \<Rightarrow> analysis" where
  "analyzeInternalLinking m =
     evaluation ''Internal Linking''
       (fst (links_rules m), map LinksIssue (snd (links_rules m)))
       (LinksData m)"

text \<open>Without HTTPS the score is set to 0, not lowered, and the other rules are not reached.\<close>

definition ssl_rules :: "ssl \<Rightarrow> int \<times> ssl_issue list" where
  "ssl_rules m =
     (let st = (100, []);
          st = (if \<not> hasSSL m then (0, snd st @ [NoHttps])
                else
                  (let st = (if daysToExpire m < 30
                             then deduct 20 (CertificateExpiring (daysToExpire m)) st else st);
                       st = (if \<not> hasHSTS m then deduct 15 MissingHsts st else st);
                       st = (if mixedContent m > 0
                             then deduct 25 (MixedContent (mixedContent m)) st else st)
                   in st))
      in st)"

definition analyzeSSLCertificate :: "ssl \<Rightarrow> analysis" where
  "analyzeSSLCertificate m =
     evaluation ''SSL Certificate''
       (fst (ssl_rules m), map SslIssue (snd (ssl_rules m)))
       (SslData m)"

definition social_rules :: "social \<Rightarrow> int \<times> social_issue list" where
  "social_rules m =
     (let st = (100, []);
          st = (if \<not> hasOpenGraph m then deduct 30 MissingOpenGraph st else st);
          st = (if \<not> hasTwitterCards m then deduct 25 MissingTwitterCard st else st);
          st = (if \<not> hasImage m then deduct 20 MissingSocialImage st else st);
          st = (if \<not> hasDescription m then deduct 15 MissingSocialDescription st else st)
      in st)"

definition analyzeSocialMediaTags :: "social \<Rightarrow> analysis" where
  "analyzeSocialMediaTags m =
     evaluation ''Social Media Tags''
       (fst (social_rules m), map SocialIssue (snd (social_rules m)))
       (SocialData m)"

definition content_rules :: "content \<Rightarrow> int \<times> content_issue list" where
  "content_rules m =
     (let st = (100, []);
          st = (if wordCount m < 500 then deduct 25 (ContentTooShort (wordCount m)) st else st);
          st = (if keywordDensity m < 1 \<or> keywordDensity m > 3
                then deduct 20 (BadKeywordDensity (keywordDensity m)) st else st);
          st = (if readabilityScore m < 50
                then deduct 15 (PoorReadability (readabilityScore m)) st else st);
          st = (if duplicateContent m > 1
                then deduct 30 (DuplicateContent (duplicateContent m)) st else st);
          st = (if internalLinks m < 3
                then deduct 10 (FewContentLinks (internalLinks m)) st else st)
      in st)"

definition analyzeContentQuality :: "content \<Rightarrow> analysis" where
  "analyzeContentQuality m =
     evaluation ''Content Quality''
       (fst (content_rules m), map ContentIssue (snd (content_rules m)))
       (ContentData m)"

definition url_rules :: "url_structure \<Rightarrow> int \<times> url_issue list" where
  "url_rules m =
     (let st = (100, []);
          st = (if urlLength m > 60 then deduct 20 (UrlTooLong (urlLength m)) st else st);
          st = (if \<not> hasKeywords m then deduct 25 UrlWithoutKeywords st else st);
          st = (if hasSpecialChars m then deduct 15 UrlSpecialChars st else st);
          st = (if depth m > 3 then deduct 10 (UrlTooDeep (depth m)) st else st)
      in st)"

definition analyzeURLStructure :: "url_structure \<Rightarrow> analysis" where
  "analyzeURLStructure m =
     evaluation ''URL Structure''
       (fst (url_rules m), map UrlIssue (snd (url_rules m)))
       (UrlData m)"

definition robots_rules :: "robots \<Rightarrow> int \<times> robots_issue list" where
  "robots_rules m =
     (let st = (100, []);
          st = (if \<not> hasRobotsTxt m then deduct 40 MissingRobotsTxt st
                else
                  (let st = (if blocksImportantPages m
                             then deduct 30 BlocksImportantPages st else st);
                       st = (if \<not> hasSitemapReference m
                             then deduct 15 MissingSitemapReference st else st);
                       st = (if blocksCSS m then deduct 10 BlocksCss st else st)
                   in st))
      in st)"

definition analyzeRobotsTxt :: "robots \<Rightarrow> analysis" where
  "analyzeRobotsTxt m =
     evaluation ''Robots.txt''
       (fst (robots_rules m), map RobotsIssue (snd (robots_rules m)))
       (RobotsData m)"

definition sitemap_rules :: "sitemap \<Rightarrow> int \<times> sitemap_issue list" where
  "sitemap_rules m =
     (let st = (100, []);
          st = (if \<not> hasSitemap m then deduct 50 MissingSitemap st
                else
                  (let st = (if lastModified m > 7
                             then deduct 20 (SitemapStale (lastModified m)) st else st);
                       st = (if \<not> hasImages m then deduct 10 SitemapWithoutImages st else st);
                       st = (if \<not> submittedToGoogle m
                             then deduct 15 SitemapNotSubmitted st else st)
                   in st))
      in st)"

definition analyzeSitemap :: "sitemap \<Rightarrow> analysis" where
  "analyzeSitemap m =
     evaluation ''XML Sitemap''
       (fst (sitemap_rules m), map SitemapIssue (snd (sitemap_rules m)))
       (SitemapData m)"

subsection \<open>Dispatch\<close>

text \<open>
  \<open>switch (metricKey)\<close> compares with the twelve string literals; \<open>None\<close> is
  \<open>undefined\<close>, which \<open>find\<close> returns when nothing matches.
\<close>

definition fallback :: analysis where
  "fallback = \<lparr>score = 50, status = Some Poor, details = EmptyText,
               recommendations = Recs [], specificData = NoData\<rparr>"

definition generateDetailedAnalysis :: "string option \<Rightarrow> draws \<Rightarrow> analysis" where
  "generateDetailedAnalysis metricKey d =
     (if metricKey = Some ''pageSpeed'' then analyzePageSpeed (pageSpeedDraw d)
      else if metricKey = Some ''mobileOptimization'' then analyzeMobileOptimization (mobileDraw d)
      else if metricKey = Some ''metaTags'' then analyzeMetaTags (metaTagsDraw d)
      else if metricKey = Some ''headingStructure'' then analyzeHeadingStructure (headingsDraw d)
      else if metricKey = Some ''imageOptimization'' then analyzeImageOptimization (imagesDraw d)
      else if metricKey = Some ''internalLinking'' then analyzeInternalLinking (linksDraw d)
      else if metricKey = Some ''sslCertificate'' then analyzeSSLCertificate (sslDraw d)
      else if metricKey = Some ''socialMediaTags'' then analyzeSocialMediaTags (socialDraw d)
      else if metricKey = Some ''contentQuality'' then analyzeContentQuality (contentDraw d)
      else if metricKey = Some ''urlStructure'' then analyzeURLStructure (urlDraw d)
      else if metricKey = Some ''robotsTxt'' then analyzeRobotsTxt (robotsDraw d)
      else if metricKey = Some ''sitemap'' then analyzeSitemap (sitemapDraw d)
      else fallback)"

text \<open>
  \<open>generateMetricResult(metric, url)\<close> finds the key under which the object \<open>metric\<close>
  is stored, by identity. An object is modelled by where it lives: the value of
  \<open>this.metrics[key]\<close>, or some other object.
\<close>

datatype metric_ref = MetricAt string | OtherObject

definition find_key :: "metric_ref \<Rightarrow> string option" where
  "find_key r = (case r of MetricAt k \<Rightarrow> find (\<lambda>key. key = k) metric_keys | OtherObject \<Rightarrow> None)"

definition generateMetricResult ::
  "metric_ref \<Rightarrow> draws \<Rightarrow> (status, details, recs, specific) metric_result" where
  "generateMetricResult r d =
     (let detailedAnalysis = generateDetailedAnalysis (find_key r) d
      in \<lparr>score = score detailedAnalysis,
          status = getScoreStatus (Num (score detailedAnalysis)),
          details = details detailedAnalysis,
          recommendations = recommendations detailedAnalysis,
          specificData = specificData detailedAnalysis\<rparr>)"

subsection \<open>The event stream of performAnalysis\<close>

text \<open>
  The body of the response is a sequence of messages separated by blank lines. The
  model starts from the complete messages, in order: what follows the last separator is
  never processed by the source. A message is a line that does not start with
  \<open>data: \<close> (skipped), a data line whose JSON does not parse (\<open>JSON.parse\<close> throws), or a
  data line carrying an event object \<open>{type, message, data}\<close>. An absent \<open>message\<close> or
  \<open>data\<close> is \<open>None\<close>.
\<close>

record 'd report =
  results :: "(string \<times> (string, string list, string list, 'd) metric_result) list"
  totalScore :: int
  report_status :: string
  websiteType :: string











subsection \<open>Evaluators that throw\<close>

text \<open>
  The dispatch calls the evaluator as a method of the analyzer
  (\<open>return this.analyzePageSpeed(url)\<close>) with no handler around the call, and so does
  \<open>generateMetricResult\<close> around the dispatch. The evaluators of the source return for
  every draw; to say what happens when one of them throws, the dispatch is also modelled
  over the outcome of each evaluator call, a result or an exception.
\<close>

record evaluator_calls =
  callPageSpeed :: "exn + analysis"
  callMobileOptimization :: "exn + analysis"
  callMetaTags :: "exn + analysis"
  callHeadingStructure :: "exn + analysis"
  callImageOptimization :: "exn + analysis"
  callInternalLinking :: "exn + analysis"
  callSSLCertificate :: "exn + analysis"
  callSocialMediaTags :: "exn + analysis"
  callContentQuality :: "exn + analysis"
  callURLStructure :: "exn + analysis"
  callRobotsTxt :: "exn + analysis"
  callSitemap :: "exn + analysis"

definition generateDetailedAnalysis_of_calls ::
  "evaluator_calls \<Rightarrow> string option \<Rightarrow> exn + analysis" where
  "generateDetailedAnalysis_of_calls calls metricKey =
     (if metricKey = Some ''pageSpeed'' then callPageSpeed calls
      else if metricKey = Some ''mobileOptimization'' then callMobileOptimization calls
      else if metricKey = Some ''metaTags'' then callMetaTags calls
      else if metricKey = Some ''headingStructure'' then callHeadingStructure calls
      else if metricKey = Some ''imageOptimization'' then callImageOptimization calls
      else if metricKey = Some ''internalLinking'' then callInternalLinking calls
      else if metricKey = Some ''sslCertificate'' then callSSLCertificate calls
      else if metricKey = Some ''socialMediaTags'' then callSocialMediaTags calls
      else if metricKey = Some ''contentQuality'' then callContentQuality calls
      else if metricKey = Some ''urlStructure'' then callURLStructure calls
      else if metricKey = Some ''robotsTxt'' then callRobotsTxt calls
      else if metricKey = Some ''sitemap'' then callSitemap calls
      else Inr fallback)"

definition generateMetricResult_of_calls ::
  "evaluator_calls \<Rightarrow> metric_ref \<Rightarrow> exn + (status, details, recs, specific) metric_result" where
  "generateMetricResult_of_calls calls r =
     (case generateDetailedAnalysis_of_calls calls (find_key r) of
        Inl e \<Rightarrow> Inl e
      | Inr detailedAnalysis \<Rightarrow>
          Inr \<lparr>score = score detailedAnalysis,
               status = getScoreStatus (Num (score detailedAnalysis)),
               details = details detailedAnalysis,
               recommendations = recommendations detailedAnalysis,
               specificData = specificData detailedAnalysis\<rparr>)"

text \<open>The calls as the evaluators of the source answer them.\<close>

definition calls_of_draws :: "draws \<Rightarrow> evaluator_calls" where
  "calls_of_draws d =
     \<lparr>callPageSpeed = Inr (analyzePageSpeed (pageSpeedDraw d)),
      callMobileOptimization = Inr (analyzeMobileOptimization (mobileDraw d)),
      callMetaTags = Inr (analyzeMetaTags (metaTagsDraw d)),
      callHeadingStructure = Inr (analyzeHeadingStructure (headingsDraw d)),
      callImageOptimization = Inr (analyzeImageOptimization (imagesDraw d)),
      callInternalLinking = Inr (analyzeInternalLinking (linksDraw d)),
      callSSLCertificate = Inr (analyzeSSLCertificate (sslDraw d)),
      callSocialMediaTags = Inr (analyzeSocialMediaTags (socialDraw d)),
      callContentQuality = Inr (analyzeContentQuality (contentDraw d)),
      callURLStructure = Inr (analyzeURLStructure (urlDraw d)),
      callRobotsTxt = Inr (analyzeRobotsTxt (robotsDraw d)),
      callSitemap = Inr (analyzeSitemap (sitemapDraw d))\<rparr>"

text \<open>The evaluator the dispatch calls for a metric key.\<close>

definition call_for :: "evaluator_calls \<Rightarrow> string \<Rightarrow> (exn + analysis) option" where
  "call_for calls key =
     (if key = ''pageSpeed'' then Some (callPageSpeed calls)
      else if key = ''mobileOptimization'' then Some (callMobileOptimization calls)
      else if key = ''metaTags'' then Some (callMetaTags calls)
      else if key = ''headingStructure'' then Some (callHeadingStructure calls)
      else if key = ''imageOptimization'' then Some (callImageOptimization calls)
      else if key = ''internalLinking'' then Some (callInternalLinking calls)
      else if key = ''sslCertificate'' then Some (callSSLCertificate calls)
      else if key = ''socialMediaTags'' then Some (callSocialMediaTags calls)
      else if key = ''contentQuality'' then Some (callContentQuality calls)
      else if key = ''urlStructure'' then Some (callURLStructure calls)
      else if key = ''robotsTxt'' then Some (callRobotsTxt calls)
      else if key = ''sitemap'' then Some (callSitemap calls)
      else None)"

subsection \<open>Notions used to state the properties\<close>

text \<open>The weight and the display name the table gives a key of its own.\<close>

definition metric_weight :: "string \<Rightarrow> int" where
  "metric_weight key = (case map_of setupMetrics key of Some m \<Rightarrow> weight m | None \<Rightarrow> 0)"

definition metric_name :: "string \<Rightarrow> string option" where
  "metric_name key = map_option name (map_of setupMetrics key)"

text \<open>
  Penalty rules applied independently of each other: a rule is a condition, a
  deduction and an issue; from the base of 100 every rule whose condition holds
  subtracts its deduction and records its issue, in the order of the list.
\<close>

type_synonym 'i rule = "bool \<times> int \<times> 'i"

definition apply_independently :: "'i rule list \<Rightarrow> int \<times> 'i list" where
  "apply_independently rules =
     (100 - sum_list (map (\<lambda>r. fst (snd r)) (filter fst rules)),
      map (\<lambda>r. snd (snd r)) (filter fst rules))"




section \<open>Properties\<close>

subsection \<open>Auxiliary facts\<close>

lemma metric_keys_eq:
  "metric_keys =
     [''pageSpeed'', ''mobileOptimization'', ''metaTags'', ''headingStructure'',
      ''imageOptimization'', ''internalLinking'', ''sslCertificate'', ''socialMediaTags'',
      ''contentQuality'', ''urlStructure'', ''robotsTxt'', ''sitemap'']"
  by (simp add: metric_keys_def setupMetrics_def)

lemma evaluation_score: "score (evaluation n st dat) = max (fst st) 0"
  by (simp add: evaluation_def Let_def)

lemma page_speed_rules_le: "fst (page_speed_rules m) \<le> 100"
  by (simp add: page_speed_rules_def Let_def deduct_def)

lemma mobile_rules_le: "fst (mobile_rules m) \<le> 100"
  by (simp add: mobile_rules_def Let_def deduct_def)

lemma meta_tags_rules_le: "fst (meta_tags_rules m) \<le> 100"
  by (simp add: meta_tags_rules_def Let_def deduct_def)

lemma headings_rules_le: "fst (headings_rules m) \<le> 100"
  by (simp add: headings_rules_def Let_def deduct_def)

lemma images_rules_le: "fst (images_rules m) \<le> 100"
  by (simp add: images_rules_def Let_def deduct_def)

lemma links_rules_le: "fst (links_rules m) \<le> 100"
  by (simp add: links_rules_def Let_def deduct_def)

lemma ssl_rules_le: "fst (ssl_rules m) \<le> 100"
  by (simp add: ssl_rules_def Let_def deduct_def)

lemma social_rules_le: "fst (social_rules m) \<le> 100"
  by (simp add: social_rules_def Let_def deduct_def)

lemma content_rules_le: "fst (content_rules m) \<le> 100"
  by (simp add: content_rules_def Let_def deduct_def)

lemma url_rules_le: "fst (url_rules m) \<le> 100"
  by (simp add: url_rules_def Let_def deduct_def)

lemma robots_rules_le: "fst (robots_rules m) \<le> 100"
  by (simp add: robots_rules_def Let_def deduct_def)

lemma sitemap_rules_le: "fst (sitemap_rules m) \<le> 100"
  by (simp add: sitemap_rules_def Let_def deduct_def)

lemmas rules_le =
  page_speed_rules_le mobile_rules_le meta_tags_rules_le headings_rules_le images_rules_le
  links_rules_le ssl_rules_le social_rules_le content_rules_le url_rules_le robots_rules_le
  sitemap_rules_le

lemmas analyze_defs =
  analyzePageSpeed_def analyzeMobileOptimization_def analyzeMetaTags_def
  analyzeHeadingStructure_def analyzeImageOptimization_def analyzeInternalLinking_def
  analyzeSSLCertificate_def analyzeSocialMediaTags_def analyzeContentQuality_def
  analyzeURLStructure_def analyzeRobotsTxt_def analyzeSitemap_def

subsection \<open>Scores of the evaluators\<close>

text \<open>
  C2. Whatever the key and whatever the measured quantities, the score returned through
  the dispatch lies between 0 and 100: an evaluator starts from 100, only lowers the
  score and floors it at 0; the default case returns 50.
\<close>

theorem score_in_range:
  "0 \<le> score (generateDetailedAnalysis metricKey d) \<and>
   score (generateDetailedAnalysis metricKey d) \<le> 100"
  by (simp add: generateDetailedAnalysis_def analyze_defs evaluation_score rules_le fallback_def)

subsection \<open>Status thresholds\<close>

text \<open>
  C3. The status of a score is decided by the thresholds 90, 75 and 60 alone: at least
  90 is excellent, from 75 up to 89 is good, from 60 up to 74 is warning, below 60 is
  poor. The status of a metric result and the status of the total score are both this
  function of the respective score.
\<close>

theorem status_thresholds:
  "(90 \<le> s \<longrightarrow> getScoreStatus (Num s) = Excellent) \<and>
   (75 \<le> s \<and> s < 90 \<longrightarrow> getScoreStatus (Num s) = Good) \<and>
   (60 \<le> s \<and> s < 75 \<longrightarrow> getScoreStatus (Num s) = Warning) \<and>
   (s < 60 \<longrightarrow> getScoreStatus (Num s) = Poor) \<and>
   status (generateMetricResult r d) = getScoreStatus (Num (score (generateMetricResult r d))) \<and>
   (\<forall>t. calculateTotalScore rs = Inr t \<longrightarrow> total_status t = getScoreStatus (total_score t))"
  by (auto simp: getScoreStatus_def generateMetricResult_def Let_def calculateTotalScore_def
           split: sum.splits prod.splits)

theorem status_thresholds_witness:
  "getScoreStatus (Num 90) = Excellent \<and> getScoreStatus (Num 75) = Good \<and>
   getScoreStatus (Num 60) = Warning \<and> getScoreStatus (Num 59) = Poor \<and>
   (\<exists>t. calculateTotalScore
          [(''pageSpeed'',
            \<lparr>score = 80, status = (), details = (), recommendations = (),
             specificData = ()\<rparr>)] = Inr t \<and>
        total_score t = Num 80 \<and> total_status t = getScoreStatus (total_score t))"
proof -
  let ?rs = "[(''pageSpeed'',
               \<lparr>score = 80, status = (), details = (), recommendations = (),
                specificData = ()\<rparr>)]"
  have run: "calculateTotalScore ?rs =
               Inr \<lparr>total_score = Num 80, total_status = Good,
                    weightedSum = Num 1200, totalWeight = Num 15\<rparr>"
    by (simp add: calculateTotalScore_def get_property_def setupMetrics_def round_half_up_def
          getScoreStatus_def)
  from status_thresholds [of 90 r d ?rs] have "getScoreStatus (Num 90) = Excellent"
    by simp
  moreover from status_thresholds [of 75 r d ?rs] have "getScoreStatus (Num 75) = Good"
    by simp
  moreover from status_thresholds [of 60 r d ?rs] have "getScoreStatus (Num 60) = Warning"
    by simp
  moreover from status_thresholds [of 59 r d ?rs] have "getScoreStatus (Num 59) = Poor"
    by simp
  moreover from status_thresholds [of 0 r d ?rs] run
  have "total_status \<lparr>total_score = Num 80, total_status = Good,
                      weightedSum = Num 1200, totalWeight = Num 15\<rparr> =
        getScoreStatus (Num 80)"
    by simp
  ultimately show ?thesis
    using run by simp
qed

subsection \<open>The fallback result\<close>

lemma dispatch_of_calls_of_draws:
  "generateDetailedAnalysis_of_calls (calls_of_draws d) metricKey =
     Inr (generateDetailedAnalysis metricKey d)"
  by (simp add: generateDetailedAnalysis_of_calls_def calls_of_draws_def
        generateDetailedAnalysis_def)

lemma result_of_calls_of_draws:
  "generateMetricResult_of_calls (calls_of_draws d) r = Inr (generateMetricResult r d)"
  by (simp add: generateMetricResult_of_calls_def dispatch_of_calls_of_draws
        generateMetricResult_def Let_def)

lemma dispatch_call_for:
  "call_for calls key = Some c \<Longrightarrow> generateDetailedAnalysis_of_calls calls (Some key) = c"
  by (simp add: call_for_def generateDetailedAnalysis_of_calls_def split: if_splits)

lemma call_for_metric_keys: "(call_for calls key \<noteq> None) = (key \<in> set metric_keys)"
  by (auto simp: call_for_def metric_keys_eq)

lemma find_eq: "find (\<lambda>key. key = k) xs = (if k \<in> set xs then Some k else None)"
  by (induction xs) auto

lemma find_key_eq: "find_key (MetricAt k) = (if k \<in> set metric_keys then Some k else None)"
  by (simp add: find_key_def find_eq)

text \<open>
  C7, as the code has it. A key that is none of the twelve metric keys (\<open>undefined\<close>
  included) is not an error: whatever the evaluators do, the dispatch returns the
  fallback result with score 50, status poor and no recommendations, and so does
  \<open>generateMetricResult\<close> for an object it finds no such key for. A fault of an evaluator
  is not replaced by the fallback: when the evaluator called for a metric key throws,
  the dispatch and \<open>generateMetricResult\<close> throw the same exception. With the evaluators
  of the source, which return for every draw, both return a result.
\<close>

theorem fallback_only_on_unknown_key:
  "(metricKey \<notin> Some ` set metric_keys \<longrightarrow>
      generateDetailedAnalysis_of_calls calls metricKey =
        Inr \<lparr>score = 50, status = Some Poor, details = EmptyText,
             recommendations = Recs [], specificData = NoData\<rparr> \<and>
      (find_key r = metricKey \<longrightarrow>
         generateMetricResult_of_calls calls r =
           Inr \<lparr>score = 50, status = Poor, details = EmptyText,
                recommendations = Recs [], specificData = NoData\<rparr>) \<and>
      generateDetailedAnalysis metricKey d =
        \<lparr>score = 50, status = Some Poor, details = EmptyText,
         recommendations = Recs [], specificData = NoData\<rparr> \<and>
      (find_key r = metricKey \<longrightarrow>
         generateMetricResult r d =
           \<lparr>score = 50, status = Poor, details = EmptyText,
            recommendations = Recs [], specificData = NoData\<rparr>)) \<and>
   (call_for calls key = Some (Inl e) \<longrightarrow>
      generateDetailedAnalysis_of_calls calls (Some key) = Inl e \<and>
      generateMetricResult_of_calls calls (MetricAt key) = Inl e) \<and>
   generateDetailedAnalysis_of_calls (calls_of_draws d) metricKey =
     Inr (generateDetailedAnalysis metricKey d) \<and>
   generateMetricResult_of_calls (calls_of_draws d) r = Inr (generateMetricResult r d)"
proof (intro conjI impI)
  assume k: "metricKey \<notin> Some ` set metric_keys"
  then show a: "generateDetailedAnalysis_of_calls calls metricKey =
        Inr \<lparr>score = 50, status = Some Poor, details = EmptyText,
             recommendations = Recs [], specificData = NoData\<rparr>"
    by (auto simp: generateDetailedAnalysis_of_calls_def metric_keys_eq fallback_def)
  from k show b: "generateDetailedAnalysis metricKey d =
        \<lparr>score = 50, status = Some Poor, details = EmptyText,
         recommendations = Recs [], specificData = NoData\<rparr>"
    by (auto simp: generateDetailedAnalysis_def metric_keys_eq fallback_def)
  {
    assume "find_key r = metricKey"
    with a show "generateMetricResult_of_calls calls r =
           Inr \<lparr>score = 50, status = Poor, details = EmptyText,
                recommendations = Recs [], specificData = NoData\<rparr>"
      by (simp add: generateMetricResult_of_calls_def getScoreStatus_def)
  }
  {
    assume "find_key r = metricKey"
    with b show "generateMetricResult r d =
           \<lparr>score = 50, status = Poor, details = EmptyText,
            recommendations = Recs [], specificData = NoData\<rparr>"
      by (simp add: generateMetricResult_def Let_def getScoreStatus_def)
  }
next
  assume c: "call_for calls key = Some (Inl e)"
  then show t: "generateDetailedAnalysis_of_calls calls (Some key) = Inl e"
    by (rule dispatch_call_for)
  from c have "key \<in> set metric_keys"
    using call_for_metric_keys [of calls key] by simp
  then have "find_key (MetricAt key) = Some key"
    by (simp add: find_key_eq)
  with t show "generateMetricResult_of_calls calls (MetricAt key) = Inl e"
    by (simp add: generateMetricResult_of_calls_def)
next
  show "generateDetailedAnalysis_of_calls (calls_of_draws d) metricKey =
     Inr (generateDetailedAnalysis metricKey d)"
    by (rule dispatch_of_calls_of_draws)
next
  show "generateMetricResult_of_calls (calls_of_draws d) r = Inr (generateMetricResult r d)"
    by (rule result_of_calls_of_draws)
qed


theorem fallback_only_on_unknown_key_witness:
  "generateDetailedAnalysis_of_calls
     \<lparr>callPageSpeed = Inr fallback, callMobileOptimization = Inr fallback,
      callMetaTags = Inr fallback, callHeadingStructure = Inr fallback,
      callImageOptimization = Inr fallback, callInternalLinking = Inr fallback,
      callSSLCertificate = Inl SyntaxError, callSocialMediaTags = Inr fallback,
      callContentQuality = Inr fallback, callURLStructure = Inr fallback,
      callRobotsTxt = Inr fallback, callSitemap = Inr fallback\<rparr> (Some ''keywordRanking'') =
     Inr \<lparr>score = 50, status = Some Poor, details = EmptyText,
            recommendations = Recs [], specificData = NoData\<rparr> \<and>
   generateMetricResult_of_calls
     \<lparr>callPageSpeed = Inr fallback, callMobileOptimization = Inr fallback,
      callMetaTags = Inr fallback, callHeadingStructure = Inr fallback,
      callImageOptimization = Inr fallback, callInternalLinking = Inr fallback,
      callSSLCertificate = Inl SyntaxError, callSocialMediaTags = Inr fallback,
      callContentQuality = Inr fallback, callURLStructure = Inr fallback,
      callRobotsTxt = Inr fallback, callSitemap = Inr fallback\<rparr> OtherObject =
     Inr \<lparr>score = 50, status = Poor, details = EmptyText,
            recommendations = Recs [], specificData = NoData\<rparr> \<and>
   generateDetailedAnalysis_of_calls
     \<lparr>callPageSpeed = Inr fallback, callMobileOptimization = Inr fallback,
      callMetaTags = Inr fallback, callHeadingStructure = Inr fallback,
      callImageOptimization = Inr fallback, callInternalLinking = Inr fallback,
      callSSLCertificate = Inl SyntaxError, callSocialMediaTags = Inr fallback,
      callContentQuality = Inr fallback, callURLStructure = Inr fallback,
      callRobotsTxt = Inr fallback, callSitemap = Inr fallback\<rparr> (Some ''sslCertificate'') = Inl SyntaxError \<and>
   generateMetricResult_of_calls
     \<lparr>callPageSpeed = Inr fallback, callMobileOptimization = Inr fallback,
      callMetaTags = Inr fallback, callHeadingStructure = Inr fallback,
      callImageOptimization = Inr fallback, callInternalLinking = Inr fallback,
      callSSLCertificate = Inl SyntaxError, callSocialMediaTags = Inr fallback,
      callContentQuality = Inr fallback, callURLStructure = Inr fallback,
      callRobotsTxt = Inr fallback, callSitemap = Inr fallback\<rparr> (MetricAt ''sslCertificate'') = Inl SyntaxError"
proof -
  let ?calls = "\<lparr>callPageSpeed = Inr fallback, callMobileOptimization = Inr fallback,
                 callMetaTags = Inr fallback, callHeadingStructure = Inr fallback,
                 callImageOptimization = Inr fallback, callInternalLinking = Inr fallback,
                 callSSLCertificate = Inl SyntaxError, callSocialMediaTags = Inr fallback,
                 callContentQuality = Inr fallback, callURLStructure = Inr fallback,
                 callRobotsTxt = Inr fallback, callSitemap = Inr fallback\<rparr>"
  have k: "Some ''keywordRanking'' \<notin> Some ` set metric_keys"
    by (simp add: metric_keys_eq)
  have u: "None \<notin> Some ` set metric_keys"
    by auto
  have f: "find_key OtherObject = None"
    by (simp add: find_key_def)
  have c: "call_for ?calls ''sslCertificate'' = Some (Inl SyntaxError)"
    by (simp add: call_for_def)
  from fallback_only_on_unknown_key
         [of "Some ''keywordRanking''" ?calls OtherObject d "''sslCertificate''" SyntaxError] k c
  have 1: "generateDetailedAnalysis_of_calls ?calls (Some ''keywordRanking'') =
             Inr \<lparr>score = 50, status = Some Poor, details = EmptyText,
            recommendations = Recs [], specificData = NoData\<rparr>"
    and 3: "generateDetailedAnalysis_of_calls ?calls (Some ''sslCertificate'') = Inl SyntaxError"
    and 4: "generateMetricResult_of_calls ?calls (MetricAt ''sslCertificate'') = Inl SyntaxError"
    by blast+
  from fallback_only_on_unknown_key
         [of None ?calls OtherObject d "''sslCertificate''" SyntaxError] u f
  have 2: "generateMetricResult_of_calls ?calls OtherObject =
             Inr \<lparr>score = 50, status = Poor, details = EmptyText,
            recommendations = Recs [], specificData = NoData\<rparr>"
    by blast
  from 1 2 3 4 show ?thesis
    by blast
qed

text \<open>
  C7 as claimed fails: when \<open>analyzePageSpeed\<close> throws, the dispatch on \<open>pageSpeed\<close>
  throws too, and no fallback result is substituted.
\<close>

theorem evaluator_fault_counterexample:
  "generateDetailedAnalysis_of_calls
     \<lparr>callPageSpeed = Inl TypeError, callMobileOptimization = Inr fallback,
      callMetaTags = Inr fallback, callHeadingStructure = Inr fallback,
      callImageOptimization = Inr fallback, callInternalLinking = Inr fallback,
      callSSLCertificate = Inr fallback, callSocialMediaTags = Inr fallback,
      callContentQuality = Inr fallback, callURLStructure = Inr fallback,
      callRobotsTxt = Inr fallback, callSitemap = Inr fallback\<rparr> (Some ''pageSpeed'') = Inl TypeError \<and>
   generateMetricResult_of_calls
     \<lparr>callPageSpeed = Inl TypeError, callMobileOptimization = Inr fallback,
      callMetaTags = Inr fallback, callHeadingStructure = Inr fallback,
      callImageOptimization = Inr fallback, callInternalLinking = Inr fallback,
      callSSLCertificate = Inr fallback, callSocialMediaTags = Inr fallback,
      callContentQuality = Inr fallback, callURLStructure = Inr fallback,
      callRobotsTxt = Inr fallback, callSitemap = Inr fallback\<rparr> (MetricAt ''pageSpeed'') = Inl TypeError"
  by (simp add: generateDetailedAnalysis_of_calls_def generateMetricResult_of_calls_def
        find_key_eq metric_keys_eq)

subsection \<open>Recommendations\<close>

lemma evaluation_recommendations:
  "recommendations (evaluation n st dat) = generateRecommendations n (Num (max (fst st) 0))"
  by (simp add: evaluation_def Let_def)

lemma generateRecommendations_score:
  "generateRecommendations metricName s1 = generateRecommendations metricName s2"
  by (simp add: generateRecommendations_def)

lemma analyze_recommendations:
  "recommendations (analyzePageSpeed m0) = generateRecommendations ''Page Speed'' NaN"
  "recommendations (analyzeMobileOptimization m1) = generateRecommendations ''Mobile Optimization'' NaN"
  "recommendations (analyzeMetaTags m2) = generateRecommendations ''Meta Tags'' NaN"
  "recommendations (analyzeHeadingStructure m3) = generateRecommendations ''Heading Structure'' NaN"
  "recommendations (analyzeImageOptimization m4) = generateRecommendations ''Image Optimization'' NaN"
  "recommendations (analyzeInternalLinking m5) = generateRecommendations ''Internal Linking'' NaN"
  "recommendations (analyzeSSLCertificate m6) = generateRecommendations ''SSL Certificate'' NaN"
  "recommendations (analyzeSocialMediaTags m7) = generateRecommendations ''Social Media Tags'' NaN"
  "recommendations (analyzeContentQuality m8) = generateRecommendations ''Content Quality'' NaN"
  "recommendations (analyzeURLStructure m9) = generateRecommendations ''URL Structure'' NaN"
  "recommendations (analyzeRobotsTxt m10) = generateRecommendations ''Robots.txt'' NaN"
  "recommendations (analyzeSitemap m11) = generateRecommendations ''XML Sitemap'' NaN"
  by (simp_all add: analyze_defs evaluation_recommendations generateRecommendations_def)

lemma table_lengths: "\<forall>e \<in> set recommendations_table. length (snd e) = 5"
  by (simp add: recommendations_table_def)

lemma table_keys: "map fst recommendations_table = map (\<lambda>e. name (snd e)) setupMetrics"
  by (simp add: recommendations_table_def setupMetrics_def)


lemma canned_list:
  assumes "n \<in> fst ` set recommendations_table"
  shows "\<exists>l. generateRecommendations n s = Recs l \<and> length l = 5"
proof -
  from assms obtain l where l: "map_of recommendations_table n = Some l"
    by (cases "map_of recommendations_table n") (auto simp: map_of_eq_None_iff)
  then have "(n, l) \<in> set recommendations_table"
    by (rule map_of_SomeD)
  with table_lengths have "length l = 5"
    by fastforce
  with l show ?thesis
    by (simp add: generateRecommendations_def get_property_def)
qed

lemma dispatch_recommendations:
  "recommendations (generateDetailedAnalysis metricKey d) =
     (case metricKey of
        None \<Rightarrow> Recs []
      | Some k \<Rightarrow> (case map_of setupMetrics k of
                     None \<Rightarrow> Recs []
                   | Some m \<Rightarrow> generateRecommendations (name m) NaN))"
  by (cases metricKey)
     (simp_all add: generateDetailedAnalysis_def analyze_recommendations fallback_def
        setupMetrics_def)


lemma named_in_table:
  assumes "map_of setupMetrics k = Some m"
  shows "name m \<in> fst ` set recommendations_table"
proof -
  from assms have "(k, m) \<in> set setupMetrics"
    by (rule map_of_SomeD)
  then have "name m \<in> set (map (\<lambda>e. name (snd e)) setupMetrics)"
    by force
  then show ?thesis
    by (simp add: table_keys [symmetric])
qed

lemma dispatch_recommendations_list:
  "\<exists>l. recommendations (generateDetailedAnalysis metricKey d) = Recs l \<and> length l \<le> 5"
proof (cases metricKey)
  case None
  then show ?thesis by (simp add: dispatch_recommendations)
next
  case (Some k)
  show ?thesis
  proof (cases "map_of setupMetrics k")
    case None
    with Some show ?thesis by (simp add: dispatch_recommendations)
  next
    case (Some m)
    from canned_list [OF named_in_table [OF Some], of NaN]
    obtain l where "generateRecommendations (name m) NaN = Recs l" "length l = 5"
      by blast
    with Some \<open>metricKey = Some k\<close> show ?thesis
      by (simp add: dispatch_recommendations)
  qed
qed

text \<open>
  C5. The recommendations of a metric result are a canned list chosen by the metric
  alone. \<open>generateRecommendations\<close> ignores its score argument; the list in a metric
  result is the same whatever quantities were measured, it has at most five entries,
  and for a metric key it is the list stored under the display name of that metric.
\<close>

theorem recommendations_fixed:
  "generateRecommendations metricName s1 = generateRecommendations metricName s2 \<and>
   recommendations (generateMetricResult r d1) = recommendations (generateMetricResult r d2) \<and>
   (\<exists>l. recommendations (generateMetricResult r d1) = Recs l \<and> length l \<le> 5) \<and>
   (\<forall>m. map_of setupMetrics k = Some m \<longrightarrow>
        recommendations (generateDetailedAnalysis (Some k) d1) =
          generateRecommendations (name m) s1)"
proof -
  have a: "generateRecommendations metricName s1 = generateRecommendations metricName s2"
    by (rule generateRecommendations_score)
  have b: "recommendations (generateMetricResult r d1) =
           recommendations (generateMetricResult r d2)"
    by (simp add: generateMetricResult_def Let_def dispatch_recommendations)
  have c: "\<exists>l. recommendations (generateMetricResult r d1) = Recs l \<and> length l \<le> 5"
    using dispatch_recommendations_list [of "find_key r" d1]
    by (simp add: generateMetricResult_def Let_def)
  have e: "\<forall>m. map_of setupMetrics k = Some m \<longrightarrow>
        recommendations (generateDetailedAnalysis (Some k) d1) =
          generateRecommendations (name m) s1"
    by (simp add: dispatch_recommendations generateRecommendations_score [of _ NaN s1])
  from a b c e show ?thesis by blast
qed

theorem recommendations_fixed_witness:
  "\<forall>d. map_of setupMetrics ''sitemap'' = Some \<lparr>name = ''XML Sitemap'', weight = 3\<rparr> \<and>
       recommendations (generateDetailedAnalysis (Some ''sitemap'') d) =
         Recs [''Create XML sitemap'', ''Submit sitemap to Google Search Console'',
               ''Keep sitemap updated'', ''Include all important pages'',
               ''Use proper sitemap format'']"
proof
  fix d
  have m: "map_of setupMetrics ''sitemap'' = Some \<lparr>name = ''XML Sitemap'', weight = 3\<rparr>"
    by (simp add: setupMetrics_def)
  have l: "generateRecommendations ''XML Sitemap'' (Num 0) =
         Recs [''Create XML sitemap'', ''Submit sitemap to Google Search Console'',
               ''Keep sitemap updated'', ''Include all important pages'',
               ''Use proper sitemap format'']"
    by (simp add: generateRecommendations_def get_property_def recommendations_table_def)
  from recommendations_fixed [of "''XML Sitemap''" "Num 0" "Num 0" OtherObject d d "''sitemap''"] m l
  show "map_of setupMetrics ''sitemap'' = Some \<lparr>name = ''XML Sitemap'', weight = 3\<rparr> \<and>
       recommendations (generateDetailedAnalysis (Some ''sitemap'') d) =
         Recs [''Create XML sitemap'', ''Submit sitemap to Google Search Console'',
               ''Keep sitemap updated'', ''Include all important pages'',
               ''Use proper sitemap format'']"
    by simp
qed

subsection \<open>The total score\<close>

lemma own_key_weight:
  assumes "k \<in> set metric_keys"
  shows "weight_of (get_property setupMetrics k) = Inr (Num (metric_weight k))"
proof -
  from assms obtain m where "map_of setupMetrics k = Some m"
    by (cases "map_of setupMetrics k") (auto simp: map_of_eq_None_iff metric_keys_def)
  then show ?thesis
    by (simp add: get_property_def metric_weight_def)
qed

lemma sum_weights_own:
  assumes "fst ` set rs \<subseteq> set metric_keys"
  shows "sum_weights rs (Num a) (Num b) =
           Inr (Num (a + (\<Sum>e\<leftarrow>rs. score (snd e) * metric_weight (fst e))),
                Num (b + (\<Sum>e\<leftarrow>rs. metric_weight (fst e))))"
  using assms
proof (induction rs arbitrary: a b)
  case Nil
  then show ?case by simp
next
  case (Cons e rs)
  obtain k r where e: "e = (k, r)" by (cases e)
  with Cons.prems have k: "k \<in> set metric_keys" and rest: "fst ` set rs \<subseteq> set metric_keys"
    by auto
  show ?case
    by (simp add: e own_key_weight [OF k] Cons.IH [OF rest] algebra_simps)
qed

lemma weights_sum_to_100: "(\<Sum>k\<leftarrow>metric_keys. metric_weight k) = 100"
  by (simp add: metric_keys_eq metric_weight_def setupMetrics_def)

lemma total_weight_100:
  assumes "mset (map fst rs) = mset metric_keys"
  shows "(\<Sum>e\<leftarrow>rs. metric_weight (fst e)) = 100"
proof -
  have "(\<Sum>e\<leftarrow>rs. metric_weight (fst e)) = sum_list (map metric_weight (map fst rs))"
    by (simp add: o_def)
  also have "\<dots> = sum_mset (image_mset metric_weight (mset (map fst rs)))"
    by (metis mset_map sum_mset_sum_list)
  also have "\<dots> = sum_mset (image_mset metric_weight (mset metric_keys))"
    by (simp only: assms)
  also have "\<dots> = sum_list (map metric_weight metric_keys)"
    by (metis mset_map sum_mset_sum_list)
  finally show ?thesis
    by (simp add: weights_sum_to_100)
qed

lemma keys_of_permutation:
  assumes "mset (map fst rs) = mset metric_keys"
  shows "fst ` set rs \<subseteq> set metric_keys"
proof -
  from assms have "set (map fst rs) = set metric_keys"
    by (rule mset_eq_setD)
  then show ?thesis by simp
qed

lemma round_half_up_100: "round_half_up (s * 100) 100 = s"
  by (simp add: round_half_up_def)

lemma round_half_up_nearest:
  "100 * (2 * round_half_up a 100 - 1) \<le> 2 * a \<and> 2 * a < 100 * (2 * round_half_up a 100 + 1)"
  unfolding round_half_up_def by simp presburger

lemma uniform_weighted_sum:
  assumes "\<forall>e \<in> set rs. score (snd e) = s"
  shows "(\<Sum>e\<leftarrow>rs. score (snd e) * metric_weight (fst e)) = s * (\<Sum>e\<leftarrow>rs. metric_weight (fst e))"
  using assms by (induction rs) (simp_all add: algebra_simps)

lemma total_of_twelve:
  assumes "mset (map fst rs) = mset metric_keys"
  shows "calculateTotalScore rs =
     Inr \<lparr>total_score = Num (round_half_up (\<Sum>e\<leftarrow>rs. score (snd e) * metric_weight (fst e)) 100),
          total_status =
            getScoreStatus (Num (round_half_up (\<Sum>e\<leftarrow>rs. score (snd e) * metric_weight (fst e)) 100)),
          weightedSum = Num (\<Sum>e\<leftarrow>rs. score (snd e) * metric_weight (fst e)),
          totalWeight = Num 100\<rparr>"
  by (simp add: calculateTotalScore_def sum_weights_own [OF keys_of_permutation [OF assms]]
        total_weight_100 [OF assms] Let_def)

lemma metric_weight_nonneg: "0 \<le> metric_weight k"
  by (simp add: metric_weight_def setupMetrics_def)

lemma weighted_sum_bounds:
  assumes "\<forall>e \<in> set rs. 0 \<le> score (snd e) \<and> score (snd e) \<le> 100"
  shows "0 \<le> (\<Sum>e\<leftarrow>rs. score (snd e) * metric_weight (fst e)) \<and>
         (\<Sum>e\<leftarrow>rs. score (snd e) * metric_weight (fst e)) \<le>
           100 * (\<Sum>e\<leftarrow>rs. metric_weight (fst e))"
  using assms
proof (induction rs)
  case Nil
  then show ?case by simp
next
  case (Cons e rs)
  then have s: "0 \<le> score (snd e)" "score (snd e) \<le> 100"
    and ih: "0 \<le> (\<Sum>e\<leftarrow>rs. score (snd e) * metric_weight (fst e))"
      "(\<Sum>e\<leftarrow>rs. score (snd e) * metric_weight (fst e)) \<le>
           100 * (\<Sum>e\<leftarrow>rs. metric_weight (fst e))"
    by simp_all
  have lo: "0 \<le> score (snd e) * metric_weight (fst e)"
    using s(1) metric_weight_nonneg by simp
  have hi: "score (snd e) * metric_weight (fst e) \<le> 100 * metric_weight (fst e)"
    using s(2) metric_weight_nonneg by (rule mult_right_mono)
  from lo hi ih show ?case
    by simp
qed

lemma round_half_up_range:
  assumes "0 \<le> a" and "a \<le> 100 * 100"
  shows "0 \<le> round_half_up a 100 \<and> round_half_up a 100 \<le> 100"
proof -
  from assms(1) have lo: "0 \<le> (2 * a + 100) div 200"
    by (simp add: pos_imp_zdiv_nonneg_iff)
  have "(2 * a + 100) div 200 \<le> (2 * (100 * 100) + 100) div 200"
    by (rule zdiv_mono1) (use assms(2) in simp_all)
  then have hi: "(2 * a + 100) div 200 \<le> 100"
    by simp
  from lo hi show ?thesis
    by (simp add: round_half_up_def)
qed

text \<open>
  What \<open>calculateTotalScore\<close> computes. For results under the twelve metric keys, in
  any order, it computes the weighted sum of the scores with the weights of
  \<open>setupMetrics\<close>, the total weight 100, and as total score the quotient of the two
  rounded to the nearest integer (a tie upwards), with the status of that score. Scores
  between 0 and 100 give a total between 0 and 100, twelve scores of 100 give the total
  100 (excellent), twelve scores of 0 give 0 (poor).
\<close>

theorem total_score_weighted_average:
  assumes "mset (map fst rs) = mset metric_keys"
  shows "(\<exists>t n. calculateTotalScore rs = Inr t \<and>
            weightedSum t = Num (\<Sum>e\<leftarrow>rs. score (snd e) * metric_weight (fst e)) \<and>
            totalWeight t = Num 100 \<and>
            total_score t = Num n \<and>
            n = round_half_up (\<Sum>e\<leftarrow>rs. score (snd e) * metric_weight (fst e)) 100 \<and>
            100 * (2 * n - 1) \<le> 2 * (\<Sum>e\<leftarrow>rs. score (snd e) * metric_weight (fst e)) \<and>
            2 * (\<Sum>e\<leftarrow>rs. score (snd e) * metric_weight (fst e)) < 100 * (2 * n + 1) \<and>
            total_status t = getScoreStatus (Num n)) \<and>
         ((\<forall>e \<in> set rs. 0 \<le> score (snd e) \<and> score (snd e) \<le> 100) \<longrightarrow>
            (\<exists>t n. calculateTotalScore rs = Inr t \<and> total_score t = Num n \<and>
                 0 \<le> n \<and> n \<le> 100)) \<and>
         ((\<forall>e \<in> set rs. score (snd e) = 100) \<longrightarrow>
            (\<exists>t. calculateTotalScore rs = Inr t \<and> total_score t = Num 100 \<and>
                 total_status t = Excellent)) \<and>
         ((\<forall>e \<in> set rs. score (snd e) = 0) \<longrightarrow>
            (\<exists>t. calculateTotalScore rs = Inr t \<and> total_score t = Num 0 \<and>
                 total_status t = Poor))"
proof (intro conjI impI)
  show "\<exists>t n. calculateTotalScore rs = Inr t \<and>
            weightedSum t = Num (\<Sum>e\<leftarrow>rs. score (snd e) * metric_weight (fst e)) \<and>
            totalWeight t = Num 100 \<and>
            total_score t = Num n \<and>
            n = round_half_up (\<Sum>e\<leftarrow>rs. score (snd e) * metric_weight (fst e)) 100 \<and>
            100 * (2 * n - 1) \<le> 2 * (\<Sum>e\<leftarrow>rs. score (snd e) * metric_weight (fst e)) \<and>
            2 * (\<Sum>e\<leftarrow>rs. score (snd e) * metric_weight (fst e)) < 100 * (2 * n + 1) \<and>
            total_status t = getScoreStatus (Num n)"
    using round_half_up_nearest [of "\<Sum>e\<leftarrow>rs. score (snd e) * metric_weight (fst e)"]
    by (simp add: total_of_twelve [OF assms])
next
  assume "\<forall>e \<in> set rs. 0 \<le> score (snd e) \<and> score (snd e) \<le> 100"
  from weighted_sum_bounds [OF this]
  have "0 \<le> (\<Sum>e\<leftarrow>rs. score (snd e) * metric_weight (fst e))"
    and "(\<Sum>e\<leftarrow>rs. score (snd e) * metric_weight (fst e)) \<le> 100 * 100"
    by (simp_all add: total_weight_100 [OF assms])
  from round_half_up_range [OF this]
  show "\<exists>t n. calculateTotalScore rs = Inr t \<and> total_score t = Num n \<and> 0 \<le> n \<and> n \<le> 100"
    by (simp add: total_of_twelve [OF assms])
next
  assume "\<forall>e \<in> set rs. score (snd e) = 100"
  then have "(\<Sum>e\<leftarrow>rs. score (snd e) * metric_weight (fst e)) = 100 * 100"
    by (simp add: uniform_weighted_sum [of rs 100] total_weight_100 [OF assms])
  then show "\<exists>t. calculateTotalScore rs = Inr t \<and> total_score t = Num 100 \<and>
                 total_status t = Excellent"
    by (simp add: total_of_twelve [OF assms] round_half_up_def getScoreStatus_def)
next
  assume "\<forall>e \<in> set rs. score (snd e) = 0"
  then have "(\<Sum>e\<leftarrow>rs. score (snd e) * metric_weight (fst e)) = 0 * 100"
    by (simp add: uniform_weighted_sum [of rs 0])
  then show "\<exists>t. calculateTotalScore rs = Inr t \<and> total_score t = Num 0 \<and>
                 total_status t = Poor"
    by (simp add: total_of_twelve [OF assms] round_half_up_def getScoreStatus_def)
qed

theorem total_score_weighted_average_witness:
  "(\<exists>t. calculateTotalScore
          [(''pageSpeed'', \<lparr>score = 80, status = (), details = (), recommendations = (), specificData = ()\<rparr>),
           (''mobileOptimization'', \<lparr>score = 90, status = (), details = (), recommendations = (), specificData = ()\<rparr>),
           (''metaTags'', \<lparr>score = 70, status = (), details = (), recommendations = (), specificData = ()\<rparr>),
           (''headingStructure'', \<lparr>score = 60, status = (), details = (), recommendations = (), specificData = ()\<rparr>),
           (''imageOptimization'', \<lparr>score = 75, status = (), details = (), recommendations = (), specificData = ()\<rparr>),
           (''internalLinking'', \<lparr>score = 85, status = (), details = (), recommendations = (), specificData = ()\<rparr>),
           (''sslCertificate'', \<lparr>score = 100, status = (), details = (), recommendations = (), specificData = ()\<rparr>),
           (''socialMediaTags'', \<lparr>score = 50, status = (), details = (), recommendations = (), specificData = ()\<rparr>),
           (''contentQuality'', \<lparr>score = 65, status = (), details = (), recommendations = (), specificData = ()\<rparr>),
           (''urlStructure'', \<lparr>score = 90, status = (), details = (), recommendations = (), specificData = ()\<rparr>),
           (''robotsTxt'', \<lparr>score = 100, status = (), details = (), recommendations = (), specificData = ()\<rparr>),
           (''sitemap'', \<lparr>score = 80, status = (), details = (), recommendations = (), specificData = ()\<rparr>)] = Inr t \<and>
        weightedSum t = Num 7875 \<and> totalWeight t = Num 100 \<and>
        total_score t = Num 79 \<and> total_status t = Good) \<and>
   (\<exists>t. calculateTotalScore
          [(''pageSpeed'', \<lparr>score = 100, status = (), details = (), recommendations = (), specificData = ()\<rparr>),
           (''mobileOptimization'', \<lparr>score = 100, status = (), details = (), recommendations = (), specificData = ()\<rparr>),
           (''metaTags'', \<lparr>score = 100, status = (), details = (), recommendations = (), specificData = ()\<rparr>),
           (''headingStructure'', \<lparr>score = 100, status = (), details = (), recommendations = (), specificData = ()\<rparr>),
           (''imageOptimization'', \<lparr>score = 100, status = (), details = (), recommendations = (), specificData = ()\<rparr>),
           (''internalLinking'', \<lparr>score = 100, status = (), details = (), recommendations = (), specificData = ()\<rparr>),
           (''sslCertificate'', \<lparr>score = 100, status = (), details = (), recommendations = (), specificData = ()\<rparr>),
           (''socialMediaTags'', \<lparr>score = 100, status = (), details = (), recommendations = (), specificData = ()\<rparr>),
           (''contentQuality'', \<lparr>score = 100, status = (), details = (), recommendations = (), specificData = ()\<rparr>),
           (''urlStructure'', \<lparr>score = 100, status = (), details = (), recommendations = (), specificData = ()\<rparr>),
           (''robotsTxt'', \<lparr>score = 100, status = (), details = (), recommendations = (), specificData = ()\<rparr>),
           (''sitemap'', \<lparr>score = 100, status = (), details = (), recommendations = (), specificData = ()\<rparr>)] = Inr t \<and>
        total_score t = Num 100 \<and> total_status t = Excellent) \<and>
   (\<exists>t. calculateTotalScore
          [(''pageSpeed'', \<lparr>score = 0, status = (), details = (), recommendations = (), specificData = ()\<rparr>),
           (''mobileOptimization'', \<lparr>score = 0, status = (), details = (), recommendations = (), specificData = ()\<rparr>),
           (''metaTags'', \<lparr>score = 0, status = (), details = (), recommendations = (), specificData = ()\<rparr>),
           (''headingStructure'', \<lparr>score = 0, status = (), details = (), recommendations = (), specificData = ()\<rparr>),
           (''imageOptimization'', \<lparr>score = 0, status = (), details = (), recommendations = (), specificData = ()\<rparr>),
           (''internalLinking'', \<lparr>score = 0, status = (), details = (), recommendations = (), specificData = ()\<rparr>),
           (''sslCertificate'', \<lparr>score = 0, status = (), details = (), recommendations = (), specificData = ()\<rparr>),
           (''socialMediaTags'', \<lparr>score = 0, status = (), details = (), recommendations = (), specificData = ()\<rparr>),
           (''contentQuality'', \<lparr>score = 0, status = (), details = (), recommendations = (), specificData = ()\<rparr>),
           (''urlStructure'', \<lparr>score = 0, status = (), details = (), recommendations = (), specificData = ()\<rparr>),
           (''robotsTxt'', \<lparr>score = 0, status = (), details = (), recommendations = (), specificData = ()\<rparr>),
           (''sitemap'', \<lparr>score = 0, status = (), details = (), recommendations = (), specificData = ()\<rparr>)] = Inr t \<and>
        total_score t = Num 0 \<and> total_status t = Poor)"
proof -
  let ?ex = "[(''pageSpeed'', \<lparr>score = 80, status = (), details = (), recommendations = (), specificData = ()\<rparr>),
               (''mobileOptimization'', \<lparr>score = 90, status = (), details = (), recommendations = (), specificData = ()\<rparr>),
               (''metaTags'', \<lparr>score = 70, status = (), details = (), recommendations = (), specificData = ()\<rparr>),
               (''headingStructure'', \<lparr>score = 60, status = (), details = (), recommendations = (), specificData = ()\<rparr>),
               (''imageOptimization'', \<lparr>score = 75, status = (), details = (), recommendations = (), specificData = ()\<rparr>),
               (''internalLinking'', \<lparr>score = 85, status = (), details = (), recommendations = (), specificData = ()\<rparr>),
               (''sslCertificate'', \<lparr>score = 100, status = (), details = (), recommendations = (), specificData = ()\<rparr>),
               (''socialMediaTags'', \<lparr>score = 50, status = (), details = (), recommendations = (), specificData = ()\<rparr>),
               (''contentQuality'', \<lparr>score = 65, status = (), details = (), recommendations = (), specificData = ()\<rparr>),
               (''urlStructure'', \<lparr>score = 90, status = (), details = (), recommendations = (), specificData = ()\<rparr>),
               (''robotsTxt'', \<lparr>score = 100, status = (), details = (), recommendations = (), specificData = ()\<rparr>),
               (''sitemap'', \<lparr>score = 80, status = (), details = (), recommendations = (), specificData = ()\<rparr>)]"
  let ?hundred = "[(''pageSpeed'', \<lparr>score = 100, status = (), details = (), recommendations = (), specificData = ()\<rparr>),
                    (''mobileOptimization'', \<lparr>score = 100, status = (), details = (), recommendations = (), specificData = ()\<rparr>),
                    (''metaTags'', \<lparr>score = 100, status = (), details = (), recommendations = (), specificData = ()\<rparr>),
                    (''headingStructure'', \<lparr>score = 100, status = (), details = (), recommendations = (), specificData = ()\<rparr>),
                    (''imageOptimization'', \<lparr>score = 100, status = (), details = (), recommendations = (), specificData = ()\<rparr>),
                    (''internalLinking'', \<lparr>score = 100, status = (), details = (), recommendations = (), specificData = ()\<rparr>),
                    (''sslCertificate'', \<lparr>score = 100, status = (), details = (), recommendations = (), specificData = ()\<rparr>),
                    (''socialMediaTags'', \<lparr>score = 100, status = (), details = (), recommendations = (), specificData = ()\<rparr>),
                    (''contentQuality'', \<lparr>score = 100, status = (), details = (), recommendations = (), specificData = ()\<rparr>),
                    (''urlStructure'', \<lparr>score = 100, status = (), details = (), recommendations = (), specificData = ()\<rparr>),
                    (''robotsTxt'', \<lparr>score = 100, status = (), details = (), recommendations = (), specificData = ()\<rparr>),
                    (''sitemap'', \<lparr>score = 100, status = (), details = (), recommendations = (), specificData = ()\<rparr>)]"
  let ?zero = "[(''pageSpeed'', \<lparr>score = 0, status = (), details = (), recommendations = (), specificData = ()\<rparr>),
                 (''mobileOptimization'', \<lparr>score = 0, status = (), details = (), recommendations = (), specificData = ()\<rparr>),
                 (''metaTags'', \<lparr>score = 0, status = (), details = (), recommendations = (), specificData = ()\<rparr>),
                 (''headingStructure'', \<lparr>score = 0, status = (), details = (), recommendations = (), specificData = ()\<rparr>),
                 (''imageOptimization'', \<lparr>score = 0, status = (), details = (), recommendations = (), specificData = ()\<rparr>),
                 (''internalLinking'', \<lparr>score = 0, status = (), details = (), recommendations = (), specificData = ()\<rparr>),
                 (''sslCertificate'', \<lparr>score = 0, status = (), details = (), recommendations = (), specificData = ()\<rparr>),
                 (''socialMediaTags'', \<lparr>score = 0, status = (), details = (), recommendations = (), specificData = ()\<rparr>),
                 (''contentQuality'', \<lparr>score = 0, status = (), details = (), recommendations = (), specificData = ()\<rparr>),
                 (''urlStructure'', \<lparr>score = 0, status = (), details = (), recommendations = (), specificData = ()\<rparr>),
                 (''robotsTxt'', \<lparr>score = 0, status = (), details = (), recommendations = (), specificData = ()\<rparr>),
                 (''sitemap'', \<lparr>score = 0, status = (), details = (), recommendations = (), specificData = ()\<rparr>)]"
  have k1: "mset (map fst ?ex) = mset metric_keys"
    by (simp add: metric_keys_eq)
  have k2: "mset (map fst ?hundred) = mset metric_keys"
    by (simp add: metric_keys_eq)
  have k3: "mset (map fst ?zero) = mset metric_keys"
    by (simp add: metric_keys_eq)
  have s2: "\<forall>e \<in> set ?hundred. score (snd e) = 100"
    by simp
  have s3: "\<forall>e \<in> set ?zero. score (snd e) = 0"
    by simp
  have ws: "(\<Sum>e\<leftarrow>?ex. score (snd e) * metric_weight (fst e)) = 7875"
    by (simp add: metric_weight_def setupMetrics_def)
  have r: "round_half_up 7875 100 = 79"
    by (simp add: round_half_up_def)
  have g: "getScoreStatus (Num 79) = Good"
    by (simp add: getScoreStatus_def)
  have s1: "\<forall>e \<in> set ?ex. 0 \<le> score (snd e) \<and> score (snd e) \<le> 100"
    by simp
  from total_score_weighted_average [OF k1] s1 have
    "\<exists>t. calculateTotalScore ?ex = Inr t \<and>
        weightedSum t = Num 7875 \<and> totalWeight t = Num 100 \<and>
        total_score t = Num 79 \<and> total_status t = Good"
    unfolding ws r using g by auto
  moreover from total_score_weighted_average [OF k2] s2 have
    "\<exists>t. calculateTotalScore ?hundred = Inr t \<and>
        total_score t = Num 100 \<and> total_status t = Excellent"
    by blast
  moreover from total_score_weighted_average [OF k3] s3 have
    "\<exists>t. calculateTotalScore ?zero = Inr t \<and>
        total_score t = Num 0 \<and> total_status t = Poor"
    by blast
  ultimately show ?thesis
    by blast
qed


text \<open>
  C9. When all twelve metric results carry the same score \<open>s\<close>, the total score is
  exactly \<open>s\<close>: the weighted sum \<open>100 * s\<close> is divided by the total weight 100 and no
  scale factor is applied.
\<close>

theorem uniform_score_preserved:
  assumes "mset (map fst rs) = mset metric_keys"
    and "\<forall>e \<in> set rs. score (snd e) = s"
  shows "calculateTotalScore rs =
           Inr \<lparr>total_score = Num s, total_status = getScoreStatus (Num s),
                weightedSum = Num (s * 100), totalWeight = Num 100\<rparr>"
proof -
  from assms have "(\<Sum>e\<leftarrow>rs. score (snd e) * metric_weight (fst e)) = s * 100"
    by (simp add: uniform_weighted_sum [of rs s] total_weight_100)
  then show ?thesis
    by (simp add: total_of_twelve [OF assms(1)] round_half_up_100)
qed

theorem uniform_score_preserved_witness:
  "calculateTotalScore
     [(''pageSpeed'', \<lparr>score = 73, status = ''warning'', details = [], recommendations = [], specificData = ()\<rparr>),
      (''mobileOptimization'', \<lparr>score = 73, status = ''warning'', details = [], recommendations = [], specificData = ()\<rparr>),
      (''metaTags'', \<lparr>score = 73, status = ''warning'', details = [], recommendations = [], specificData = ()\<rparr>),
      (''headingStructure'', \<lparr>score = 73, status = ''warning'', details = [], recommendations = [], specificData = ()\<rparr>),
      (''imageOptimization'', \<lparr>score = 73, status = ''warning'', details = [], recommendations = [], specificData = ()\<rparr>),
      (''internalLinking'', \<lparr>score = 73, status = ''warning'', details = [], recommendations = [], specificData = ()\<rparr>),
      (''sslCertificate'', \<lparr>score = 73, status = ''warning'', details = [], recommendations = [], specificData = ()\<rparr>),
      (''socialMediaTags'', \<lparr>score = 73, status = ''warning'', details = [], recommendations = [], specificData = ()\<rparr>),
      (''contentQuality'', \<lparr>score = 73, status = ''warning'', details = [], recommendations = [], specificData = ()\<rparr>),
      (''urlStructure'', \<lparr>score = 73, status = ''warning'', details = [], recommendations = [], specificData = ()\<rparr>),
      (''robotsTxt'', \<lparr>score = 73, status = ''warning'', details = [], recommendations = [], specificData = ()\<rparr>),
      (''sitemap'', \<lparr>score = 73, status = ''warning'', details = [], recommendations = [], specificData = ()\<rparr>)] =
   Inr \<lparr>total_score = Num 73, total_status = Warning,
        weightedSum = Num 7300, totalWeight = Num 100\<rparr>"
proof -
  let ?rs = "[(''pageSpeed'', \<lparr>score = 73, status = ''warning'', details = [], recommendations = [], specificData = ()\<rparr>),
               (''mobileOptimization'', \<lparr>score = 73, status = ''warning'', details = [], recommendations = [], specificData = ()\<rparr>),
               (''metaTags'', \<lparr>score = 73, status = ''warning'', details = [], recommendations = [], specificData = ()\<rparr>),
               (''headingStructure'', \<lparr>score = 73, status = ''warning'', details = [], recommendations = [], specificData = ()\<rparr>),
               (''imageOptimization'', \<lparr>score = 73, status = ''warning'', details = [], recommendations = [], specificData = ()\<rparr>),
               (''internalLinking'', \<lparr>score = 73, status = ''warning'', details = [], recommendations = [], specificData = ()\<rparr>),
               (''sslCertificate'', \<lparr>score = 73, status = ''warning'', details = [], recommendations = [], specificData = ()\<rparr>),
               (''socialMediaTags'', \<lparr>score = 73, status = ''warning'', details = [], recommendations = [], specificData = ()\<rparr>),
               (''contentQuality'', \<lparr>score = 73, status = ''warning'', details = [], recommendations = [], specificData = ()\<rparr>),
               (''urlStructure'', \<lparr>score = 73, status = ''warning'', details = [], recommendations = [], specificData = ()\<rparr>),
               (''robotsTxt'', \<lparr>score = 73, status = ''warning'', details = [], recommendations = [], specificData = ()\<rparr>),
               (''sitemap'', \<lparr>score = 73, status = ''warning'', details = [], recommendations = [], specificData = ()\<rparr>)]"
  have keys: "mset (map fst ?rs) = mset metric_keys"
    by (simp add: metric_keys_eq)
  have scores: "\<forall>e \<in> set ?rs. score (snd e) = 73"
    by simp
  from uniform_score_preserved [OF keys scores] show ?thesis
    by (simp add: getScoreStatus_def)
qed

subsection \<open>Collected issues\<close>

lemma own_key_name:
  assumes "k \<in> set metric_keys"
  shows "metric_name_of (get_property setupMetrics k) = Inr (metric_name k)"
proof -
  from assms obtain m where "map_of setupMetrics k = Some m"
    by (cases "map_of setupMetrics k") (auto simp: map_of_eq_None_iff metric_keys_def)
  then show ?thesis
    by (simp add: get_property_def metric_name_def)
qed

lemma collect_loop_own:
  assumes "\<forall>e \<in> set rs. score (snd e) < 75 \<longrightarrow> fst e \<in> set metric_keys"
  shows "collect_loop rs acc =
           Inr (acc @ map (\<lambda>e. extractIssueData (metric_name (fst e)) (snd e)
                                 (getIssueSeverity (score (snd e))))
                          (filter (\<lambda>e. score (snd e) < 75) rs))"
  using assms
proof (induction rs arbitrary: acc)
  case Nil
  then show ?case by simp
next
  case (Cons e rs)
  obtain k r where e: "e = (k, r)" by (cases e)
  from Cons.prems have rest: "\<forall>e \<in> set rs. score (snd e) < 75 \<longrightarrow> fst e \<in> set metric_keys"
    by simp
  show ?case
  proof (cases "score r < 75")
    case True
    with Cons.prems e have "k \<in> set metric_keys" by simp
    with True show ?thesis
      by (simp add: e own_key_name Cons.IH [OF rest])
  next
    case False
    then show ?thesis
      by (simp add: e Cons.IH [OF rest])
  qed
qed

lemma severity_thresholds:
  "(x < 30 \<longrightarrow> getIssueSeverity x = Critical) \<and>
   (30 \<le> x \<and> x < 50 \<longrightarrow> getIssueSeverity x = High) \<and>
   (50 \<le> x \<and> x < 65 \<longrightarrow> getIssueSeverity x = Medium) \<and>
   (65 \<le> x \<longrightarrow> getIssueSeverity x = Low)"
  by (simp add: getIssueSeverity_def)

lemma severity_ranks:
  "severityOrder Critical < severityOrder High \<and> severityOrder High < severityOrder Medium \<and>
   severityOrder Medium < severityOrder Low"
  by (simp add: severityOrder_def)

text \<open>
  C10. When every result scoring below 75 sits under a metric key, \<open>collectAllIssues\<close>
  returns one issue for each result whose score is below 75 and none for the others;
  each issue carries the severity \<open>getIssueSeverity\<close> gives its score (below 30
  critical, below 50 high, below 65 medium, low otherwise), and the returned list is
  ordered by severity: critical before high before medium before low.
\<close>

theorem collected_issues:
  assumes "\<forall>e \<in> set rs. score (snd e) < 75 \<longrightarrow> fst e \<in> set metric_keys"
  shows "(\<exists>issues. collectAllIssues rs = Inr issues \<and>
            mset issues =
              mset (map (\<lambda>e. extractIssueData (metric_name (fst e)) (snd e)
                                (getIssueSeverity (score (snd e))))
                        (filter (\<lambda>e. score (snd e) < 75) rs)) \<and>
            (\<forall>i \<in> set issues. issue_score i < 75 \<and> severity i = getIssueSeverity (issue_score i)) \<and>
            sorted (map (\<lambda>i. severityOrder (severity i)) issues)) \<and>
         (x < 30 \<longrightarrow> getIssueSeverity x = Critical) \<and>
         (30 \<le> x \<and> x < 50 \<longrightarrow> getIssueSeverity x = High) \<and>
         (50 \<le> x \<and> x < 65 \<longrightarrow> getIssueSeverity x = Medium) \<and>
         (65 \<le> x \<longrightarrow> getIssueSeverity x = Low) \<and>
         severityOrder Critical < severityOrder High \<and>
         severityOrder High < severityOrder Medium \<and>
         severityOrder Medium < severityOrder Low"
proof -
  let ?found = "map (\<lambda>e. extractIssueData (metric_name (fst e)) (snd e)
                                (getIssueSeverity (score (snd e))))
                        (filter (\<lambda>e. score (snd e) < 75) rs)"
  let ?issues = "sort_key (\<lambda>i. severityOrder (severity i)) ?found"
  have run: "collectAllIssues rs = Inr ?issues"
    by (simp add: collectAllIssues_def collect_loop_own [OF assms])
  have same: "mset ?issues = mset ?found"
    by simp
  have each: "\<forall>i \<in> set ?issues. issue_score i < 75 \<and> severity i = getIssueSeverity (issue_score i)"
    by (auto simp: extractIssueData_def)
  have ordered: "sorted (map (\<lambda>i. severityOrder (severity i)) ?issues)"
    by (rule sorted_sort_key)
  from run same each ordered severity_thresholds [of x] severity_ranks show ?thesis
    by blast
qed


theorem collected_issues_witness:
  "(\<exists>issues.
      collectAllIssues
        [(''pageSpeed'', \<lparr>score = 80, status = (), details = (), recommendations = [''a'', ''b'', ''c'', ''d''], specificData = ()\<rparr>),
      (''metaTags'', \<lparr>score = 60, status = (), details = (), recommendations = [''a'', ''b'', ''c'', ''d''], specificData = ()\<rparr>),
      (''sslCertificate'', \<lparr>score = 20, status = (), details = (), recommendations = [''a'', ''b'', ''c'', ''d''], specificData = ()\<rparr>),
      (''sitemap'', \<lparr>score = 45, status = (), details = (), recommendations = [''a'', ''b'', ''c'', ''d''], specificData = ()\<rparr>)] = Inr issues \<and>
      mset issues =
        mset [\<lparr>metric = Some ''Meta Tags'', issue_score = 60, severity = Medium, issue_details = (), issue_specificData = (), issue_recommendations = [''a'', ''b'', ''c'']\<rparr>,
      \<lparr>metric = Some ''SSL Certificate'', issue_score = 20, severity = Critical, issue_details = (), issue_specificData = (), issue_recommendations = [''a'', ''b'', ''c'']\<rparr>,
      \<lparr>metric = Some ''XML Sitemap'', issue_score = 45, severity = High, issue_details = (), issue_specificData = (), issue_recommendations = [''a'', ''b'', ''c'']\<rparr>] \<and>
      sorted (map (\<lambda>i. severityOrder (severity i)) issues)) \<and>
   getIssueSeverity 20 = Critical \<and> getIssueSeverity 45 = High \<and>
   getIssueSeverity 60 = Medium \<and> getIssueSeverity 70 = Low"
proof -
  let ?rs = "[(''pageSpeed'', \<lparr>score = 80, status = (), details = (), recommendations = [''a'', ''b'', ''c'', ''d''], specificData = ()\<rparr>),
      (''metaTags'', \<lparr>score = 60, status = (), details = (), recommendations = [''a'', ''b'', ''c'', ''d''], specificData = ()\<rparr>),
      (''sslCertificate'', \<lparr>score = 20, status = (), details = (), recommendations = [''a'', ''b'', ''c'', ''d''], specificData = ()\<rparr>),
      (''sitemap'', \<lparr>score = 45, status = (), details = (), recommendations = [''a'', ''b'', ''c'', ''d''], specificData = ()\<rparr>)]"
  have keys: "\<forall>e \<in> set ?rs. score (snd e) < 75 \<longrightarrow> fst e \<in> set metric_keys"
    by (simp add: metric_keys_eq)
  have found: "map (\<lambda>e. extractIssueData (metric_name (fst e)) (snd e)
                         (getIssueSeverity (score (snd e))))
                 (filter (\<lambda>e. score (snd e) < 75) ?rs) =
               [\<lparr>metric = Some ''Meta Tags'', issue_score = 60, severity = Medium, issue_details = (), issue_specificData = (), issue_recommendations = [''a'', ''b'', ''c'']\<rparr>,
      \<lparr>metric = Some ''SSL Certificate'', issue_score = 20, severity = Critical, issue_details = (), issue_specificData = (), issue_recommendations = [''a'', ''b'', ''c'']\<rparr>,
      \<lparr>metric = Some ''XML Sitemap'', issue_score = 45, severity = High, issue_details = (), issue_specificData = (), issue_recommendations = [''a'', ''b'', ''c'']\<rparr>]"
    by (simp add: extractIssueData_def metric_name_def setupMetrics_def getIssueSeverity_def)
  from collected_issues [OF keys, of 20] have
    "(\<exists>issues. collectAllIssues ?rs = Inr issues \<and>
        mset issues = mset [\<lparr>metric = Some ''Meta Tags'', issue_score = 60, severity = Medium, issue_details = (), issue_specificData = (), issue_recommendations = [''a'', ''b'', ''c'']\<rparr>,
      \<lparr>metric = Some ''SSL Certificate'', issue_score = 20, severity = Critical, issue_details = (), issue_specificData = (), issue_recommendations = [''a'', ''b'', ''c'']\<rparr>,
      \<lparr>metric = Some ''XML Sitemap'', issue_score = 45, severity = High, issue_details = (), issue_specificData = (), issue_recommendations = [''a'', ''b'', ''c'']\<rparr>] \<and>
        sorted (map (\<lambda>i. severityOrder (severity i)) issues)) \<and>
     getIssueSeverity 20 = Critical"
    unfolding found by auto
  moreover from collected_issues [OF keys, of 45] have "getIssueSeverity 45 = High"
    by simp
  moreover from collected_issues [OF keys, of 60] have "getIssueSeverity 60 = Medium"
    by simp
  moreover from collected_issues [OF keys, of 70] have "getIssueSeverity 70 = Low"
    by simp
  ultimately show ?thesis
    by blast
qed

subsection \<open>The event stream\<close>







subsection \<open>Penalty rules\<close>

lemma page_speed_table:
  "page_speed_rules m =
     apply_independently
       [(loadTime m > 2000, 30, LoadTimeTooLong (loadTime m)),
        (\<not> loadTime m > 2000 \<and> loadTime m > 1500, 15, LoadTimeSlow (loadTime m)),
        (totalSize m > 1500, 25, TotalSizeTooLarge (totalSize m)),
        (imageSize m > 500, 20, ImageSizeTooLarge (imageSize m)),
        (cssSize m > 150, 10, CssTooLarge (cssSize m)),
        (jsSize m > 200, 15, JsTooLarge (jsSize m))]"
  by (simp add: page_speed_rules_def apply_independently_def deduct_def Let_def)

lemma mobile_table:
  "mobile_rules m =
     apply_independently
       [(\<not> hasViewport m, 40, MissingViewport),
        (smallTouchTargets m > 3, 25, SmallTouchTargets (smallTouchTargets m)),
        (fontSize m < 14, 20, FontTooSmall (fontSize m)),
        (\<not> hasMobileMenu m, 15, MissingMobileMenu)]"
  by (simp add: mobile_rules_def apply_independently_def deduct_def Let_def)

lemma meta_tags_table:
  "meta_tags_rules m =
     apply_independently
       [(titleLength m < 30, 20, TitleTooShort (titleLength m)),
        (\<not> titleLength m < 30 \<and> titleLength m > 60, 15, TitleTooLong (titleLength m)),
        (descriptionLength m < 120, 15, DescriptionTooShort (descriptionLength m)),
        (\<not> descriptionLength m < 120 \<and> descriptionLength m > 160, 10,
         DescriptionTooLong (descriptionLength m)),
        (\<not> hasKeywordMeta m, 5, MissingKeywordMeta),
        (\<not> hasCanonical m, 10, MissingCanonical),
        (duplicateTitles m > 0, 20, DuplicateTitles (duplicateTitles m))]"
  by (simp add: meta_tags_rules_def apply_independently_def deduct_def Let_def)

lemma headings_table:
  "headings_rules m =
     apply_independently
       [(h1Count m > 1, 30, MultipleH1 (h1Count m)),
        (h1Count m = 0, 40, MissingH1),
        (missingHeadings m > 2, 20, MissingHeadings (missingHeadings m)),
        (skippedLevels m > 1, 15, SkippedLevels (skippedLevels m))]"
  by (simp add: headings_rules_def apply_independently_def deduct_def Let_def)

lemma images_table:
  "images_rules m =
     apply_independently
       [(largeImages m > 3, 25, LargeImages (largeImages m)),
        (missingAlt m > 2, 20, MissingAlt (missingAlt m)),
        (5 * webpImages m < totalImages m, 15, FewWebp (webpImages m)),
        (10 * lazyLoaded m < 3 * totalImages m, 10, FewLazyLoaded (lazyLoaded m))]"
  by (simp add: images_rules_def apply_independently_def deduct_def Let_def)

lemma links_table:
  "links_rules m =
     apply_independently
       [(brokenLinks m > 1, 30, BrokenLinks (brokenLinks m)),
        (orphanPages m > 3, 25, OrphanPages (orphanPages m)),
        (totalLinks m < 20, 20, FewInternalLinks (totalLinks m)),
        (deepLinks m > 5, 15, DeepLinks (deepLinks m))]"
  by (simp add: links_rules_def apply_independently_def deduct_def Let_def)

lemma ssl_table:
  "ssl_rules m =
     apply_independently
       [(\<not> hasSSL m, 100, NoHttps),
        (hasSSL m \<and> daysToExpire m < 30, 20, CertificateExpiring (daysToExpire m)),
        (hasSSL m \<and> \<not> hasHSTS m, 15, MissingHsts),
        (hasSSL m \<and> mixedContent m > 0, 25, MixedContent (mixedContent m))]"
  by (simp add: ssl_rules_def apply_independently_def deduct_def Let_def)

lemma social_table:
  "social_rules m =
     apply_independently
       [(\<not> hasOpenGraph m, 30, MissingOpenGraph),
        (\<not> hasTwitterCards m, 25, MissingTwitterCard),
        (\<not> hasImage m, 20, MissingSocialImage),
        (\<not> hasDescription m, 15, MissingSocialDescription)]"
  by (simp add: social_rules_def apply_independently_def deduct_def Let_def)

lemma content_table:
  "content_rules m =
     apply_independently
       [(wordCount m < 500, 25, ContentTooShort (wordCount m)),
        (keywordDensity m < 1 \<or> keywordDensity m > 3, 20, BadKeywordDensity (keywordDensity m)),
        (readabilityScore m < 50, 15, PoorReadability (readabilityScore m)),
        (duplicateContent m > 1, 30, DuplicateContent (duplicateContent m)),
        (internalLinks m < 3, 10, FewContentLinks (internalLinks m))]"
  by (simp add: content_rules_def apply_independently_def deduct_def Let_def)

lemma url_table:
  "url_rules m =
     apply_independently
       [(urlLength m > 60, 20, UrlTooLong (urlLength m)),
        (\<not> hasKeywords m, 25, UrlWithoutKeywords),
        (hasSpecialChars m, 15, UrlSpecialChars),
        (depth m > 3, 10, UrlTooDeep (depth m))]"
  by (simp add: url_rules_def apply_independently_def deduct_def Let_def)

lemma robots_table:
  "robots_rules m =
     apply_independently
       [(\<not> hasRobotsTxt m, 40, MissingRobotsTxt),
        (hasRobotsTxt m \<and> blocksImportantPages m, 30, BlocksImportantPages),
        (hasRobotsTxt m \<and> \<not> hasSitemapReference m, 15, MissingSitemapReference),
        (hasRobotsTxt m \<and> blocksCSS m, 10, BlocksCss)]"
  by (simp add: robots_rules_def apply_independently_def deduct_def Let_def)

lemma sitemap_table:
  "sitemap_rules m =
     apply_independently
       [(\<not> hasSitemap m, 50, MissingSitemap),
        (hasSitemap m \<and> lastModified m > 7, 20, SitemapStale (lastModified m)),
        (hasSitemap m \<and> \<not> hasImages m, 10, SitemapWithoutImages),
        (hasSitemap m \<and> \<not> submittedToGoogle m, 15, SitemapNotSubmitted)]"
  by (simp add: sitemap_rules_def apply_independently_def deduct_def Let_def)

text \<open>
  C4, as the code has it. In every evaluator the penalty rules that are reached stack:
  the score before the floor is 100 minus the deductions of all rules whose condition
  holds, and the issues are those of these rules, in source order. A rule is reached
  unconditionally unless the source nests it: the second tier of a two-tier rule (load
  time, title length, description length) is tested only when the first tier did not
  fire, and the rules on an SSL certificate, a robots.txt file or a sitemap are tested
  only when HTTPS, the file or the sitemap is present. Without HTTPS the score is set
  to 0, which from the base of 100 is a deduction of 100.
\<close>

theorem rules_stack_where_reached:
  "(page_speed_rules ps =
      apply_independently
        [(loadTime ps > 2000, 30, LoadTimeTooLong (loadTime ps)),
         (\<not> loadTime ps > 2000 \<and> loadTime ps > 1500, 15, LoadTimeSlow (loadTime ps)),
         (totalSize ps > 1500, 25, TotalSizeTooLarge (totalSize ps)),
         (imageSize ps > 500, 20, ImageSizeTooLarge (imageSize ps)),
         (cssSize ps > 150, 10, CssTooLarge (cssSize ps)),
         (jsSize ps > 200, 15, JsTooLarge (jsSize ps))]) \<and>
   (mobile_rules mo =
      apply_independently
        [(\<not> hasViewport mo, 40, MissingViewport),
         (smallTouchTargets mo > 3, 25, SmallTouchTargets (smallTouchTargets mo)),
         (fontSize mo < 14, 20, FontTooSmall (fontSize mo)),
         (\<not> hasMobileMenu mo, 15, MissingMobileMenu)]) \<and>
   (meta_tags_rules mt =
      apply_independently
        [(titleLength mt < 30, 20, TitleTooShort (titleLength mt)),
         (\<not> titleLength mt < 30 \<and> titleLength mt > 60, 15, TitleTooLong (titleLength mt)),
         (descriptionLength mt < 120, 15, DescriptionTooShort (descriptionLength mt)),
         (\<not> descriptionLength mt < 120 \<and> descriptionLength mt > 160, 10,
          DescriptionTooLong (descriptionLength mt)),
         (\<not> hasKeywordMeta mt, 5, MissingKeywordMeta),
         (\<not> hasCanonical mt, 10, MissingCanonical),
         (duplicateTitles mt > 0, 20, DuplicateTitles (duplicateTitles mt))]) \<and>
   (headings_rules hs =
      apply_independently
        [(h1Count hs > 1, 30, MultipleH1 (h1Count hs)),
         (h1Count hs = 0, 40, MissingH1),
         (missingHeadings hs > 2, 20, MissingHeadings (missingHeadings hs)),
         (skippedLevels hs > 1, 15, SkippedLevels (skippedLevels hs))]) \<and>
   (images_rules ig =
      apply_independently
        [(largeImages ig > 3, 25, LargeImages (largeImages ig)),
         (missingAlt ig > 2, 20, MissingAlt (missingAlt ig)),
         (5 * webpImages ig < totalImages ig, 15, FewWebp (webpImages ig)),
         (10 * lazyLoaded ig < 3 * totalImages ig, 10, FewLazyLoaded (lazyLoaded ig))]) \<and>
   (links_rules lk =
      apply_independently
        [(brokenLinks lk > 1, 30, BrokenLinks (brokenLinks lk)),
         (orphanPages lk > 3, 25, OrphanPages (orphanPages lk)),
         (totalLinks lk < 20, 20, FewInternalLinks (totalLinks lk)),
         (deepLinks lk > 5, 15, DeepLinks (deepLinks lk))]) \<and>
   (ssl_rules sl =
      apply_independently
        [(\<not> hasSSL sl, 100, NoHttps),
         (hasSSL sl \<and> daysToExpire sl < 30, 20, CertificateExpiring (daysToExpire sl)),
         (hasSSL sl \<and> \<not> hasHSTS sl, 15, MissingHsts),
         (hasSSL sl \<and> mixedContent sl > 0, 25, MixedContent (mixedContent sl))]) \<and>
   (social_rules sc =
      apply_independently
        [(\<not> hasOpenGraph sc, 30, MissingOpenGraph),
         (\<not> hasTwitterCards sc, 25, MissingTwitterCard),
         (\<not> hasImage sc, 20, MissingSocialImage),
         (\<not> hasDescription sc, 15, MissingSocialDescription)]) \<and>
   (content_rules cq =
      apply_independently
        [(wordCount cq < 500, 25, ContentTooShort (wordCount cq)),
         (keywordDensity cq < 1 \<or> keywordDensity cq > 3, 20, BadKeywordDensity (keywordDensity cq)),
         (readabilityScore cq < 50, 15, PoorReadability (readabilityScore cq)),
         (duplicateContent cq > 1, 30, DuplicateContent (duplicateContent cq)),
         (internalLinks cq < 3, 10, FewContentLinks (internalLinks cq))]) \<and>
   (url_rules ur =
      apply_independently
        [(urlLength ur > 60, 20, UrlTooLong (urlLength ur)),
         (\<not> hasKeywords ur, 25, UrlWithoutKeywords),
         (hasSpecialChars ur, 15, UrlSpecialChars),
         (depth ur > 3, 10, UrlTooDeep (depth ur))]) \<and>
   (robots_rules rb =
      apply_independently
        [(\<not> hasRobotsTxt rb, 40, MissingRobotsTxt),
         (hasRobotsTxt rb \<and> blocksImportantPages rb, 30, BlocksImportantPages),
         (hasRobotsTxt rb \<and> \<not> hasSitemapReference rb, 15, MissingSitemapReference),
         (hasRobotsTxt rb \<and> blocksCSS rb, 10, BlocksCss)]) \<and>
   (sitemap_rules sp =
      apply_independently
        [(\<not> hasSitemap sp, 50, MissingSitemap),
         (hasSitemap sp \<and> lastModified sp > 7, 20, SitemapStale (lastModified sp)),
         (hasSitemap sp \<and> \<not> hasImages sp, 10, SitemapWithoutImages),
         (hasSitemap sp \<and> \<not> submittedToGoogle sp, 15, SitemapNotSubmitted)])"
  by (intro conjI)
     (rule page_speed_table mobile_table meta_tags_table headings_table images_table links_table ssl_table social_table content_table url_table robots_table sitemap_table)+

text \<open>
  C4 as claimed fails: with no robots.txt file the rule on blocked pages is skipped
  although its condition holds, so the score is 60 with one issue, where independent
  rules would give 30 with two.
\<close>

theorem robots_rules_counterexample:
  "blocksImportantPages
     \<lparr>hasRobotsTxt = False, blocksImportantPages = True, hasSitemapReference = True,
      blocksCSS = False\<rparr> \<and>
   robots_rules
     \<lparr>hasRobotsTxt = False, blocksImportantPages = True, hasSitemapReference = True,
      blocksCSS = False\<rparr> = (60, [MissingRobotsTxt]) \<and>
   apply_independently
     [(\<not> False, 40, MissingRobotsTxt), (True, 30, BlocksImportantPages),
      (\<not> True, 15, MissingSitemapReference), (False, 10, BlocksCss)] =
     (30, [MissingRobotsTxt, BlocksImportantPages]) \<and>
   score (analyzeRobotsTxt
     \<lparr>hasRobotsTxt = False, blocksImportantPages = True, hasSitemapReference = True,
      blocksCSS = False\<rparr>) = 60 \<and>
   details (analyzeRobotsTxt
     \<lparr>hasRobotsTxt = False, blocksImportantPages = True, hasSitemapReference = True,
      blocksCSS = False\<rparr>) = IssueText [RobotsIssue MissingRobotsTxt]"
  by (simp add: robots_rules_def apply_independently_def deduct_def Let_def analyzeRobotsTxt_def
        evaluation_def)

end
